theory Spec2Isabelle
  imports Complex_Main "HOL-Library.AList"
begin

section \<open>Physics converter of the Godot exporter (converters/physics.py)\<close>

text \<open>
  The converter turns the rigid-body description of Blender objects into Godot nodes: one
  body node per physics root and one collision-shape node per object with physics, with the
  shape resources registered in the ESCN file. The definitions below follow
  \<^verbatim>\<open>physics.py\<close> function by function and keep its names.

  Python floats are idealised as \<^typ>\<open>real\<close>. Matrices of \<^verbatim>\<open>mathutils\<close> are a type
  parameter \<open>'m\<close>; their operations are parameters of the functions that use them.
\<close>

subsection \<open>Blender side: objects and rigid bodies\<close>

datatype error = AttributeError | IndexError | AssertionError

datatype vector = Vector (vx: real) (vy: real) (vz: real)

text \<open>
  \<^verbatim>\<open>node.rigid_body\<close>. The field \<open>ident\<close> is the identity of the descriptor (Python
  compares and hashes it by identity, not by content); the other fields are the attributes
  that \<^verbatim>\<open>physics.py\<close> reads.
\<close>

record rigid_body_object =
  ident :: nat
  collision_shape :: string
  rbd_type :: string
  kinematic :: bool
  use_margin :: bool
  collision_margin :: real
  friction :: real
  restitution :: real
  collision_collections :: "bool list"
  use_deactivation :: bool
  linear_damping :: real
  angular_damping :: real
  use_start_deactivated :: bool

text \<open>
  A Blender object with the attributes read by the converter. The parent reference is part
  of the value, so every chain of parents is finite, as in Blender's object hierarchy.
\<close>

datatype 'm bl_object = BlObject
  (name: string)
  (parent: "'m bl_object option")
  (rigid_body: "rigid_body_object option")
  (bound_box: "vector list")
  (matrix_world: 'm)
  (matrix_local: 'm)

subsection \<open>Hierarchy\<close>

definition has_physics :: "'m bl_object \<Rightarrow> bool" where
  "has_physics node = (rigid_body node \<noteq> None)"

text \<open>
  The loop of \<^verbatim>\<open>get_physics_root\<close>, with its two variables \<^verbatim>\<open>parent_rbd\<close> and
  \<^verbatim>\<open>current_node\<close> as arguments.
\<close>

fun get_physics_root_loop ::
  "'m bl_object option \<Rightarrow> 'm bl_object \<Rightarrow> 'm bl_object option" where
  "get_physics_root_loop parent_rbd (BlObject n None rb bb mw ml) = parent_rbd"
| "get_physics_root_loop parent_rbd (BlObject n (Some p) rb bb mw ml) =
     get_physics_root_loop (if rigid_body p \<noteq> None then Some p else parent_rbd) p"

definition get_physics_root :: "'m bl_object \<Rightarrow> 'm bl_object option" where
  "get_physics_root node = get_physics_root_loop None node"

definition is_physics_root :: "'m bl_object \<Rightarrow> bool" where
  "is_physics_root node = (get_physics_root node = None)"

text \<open>The ancestors of an object, the immediate parent first, the top of the hierarchy last.\<close>

fun ancestors :: "'m bl_object \<Rightarrow> 'm bl_object list" where
  "ancestors (BlObject n None rb bb mw ml) = []"
| "ancestors (BlObject n (Some p) rb bb mw ml) = p # ancestors p"

subsection \<open>Bounding box\<close>

definition vec_sub :: "vector \<Rightarrow> vector \<Rightarrow> vector" where
  "vec_sub a b = Vector (vx a - vx b) (vy a - vy b) (vz a - vz b)"

definition vec_div :: "vector \<Rightarrow> real \<Rightarrow> vector" where
  "vec_div a d = Vector (vx a / d) (vy a / d) (vz a / d)"

text \<open>One round of the loop of \<^verbatim>\<open>get_extents\<close> on the pair \<^verbatim>\<open>(mins, maxs)\<close>.\<close>

definition extents_step :: "vector \<Rightarrow> vector \<times> vector \<Rightarrow> vector \<times> vector" where
  "extents_step vec mm =
     (case mm of (mins, maxs) \<Rightarrow>
        (Vector (min (vx vec) (vx mins)) (min (vy vec) (vy mins)) (min (vz vec) (vz mins)),
         Vector (max (vx vec) (vx maxs)) (max (vy vec) (vy maxs)) (max (vz vec) (vz maxs))))"

text \<open>\<^verbatim>\<open>vecs[0]\<close> raises \<^verbatim>\<open>IndexError\<close> on an empty bounding box.\<close>

definition get_extents :: "'m bl_object \<Rightarrow> error + vector" where
  "get_extents node =
     (case bound_box node of
        [] \<Rightarrow> Inl IndexError
      | v0 # rest \<Rightarrow>
          (case fold extents_step (v0 # rest) (v0, v0) of
             (mins, maxs) \<Rightarrow> Inr (vec_sub maxs mins)))"

subsection \<open>Godot side: values, nodes, resources and the ESCN file\<close>

text \<open>The values stored in the properties of nodes and resources.\<close>

datatype 'm gd_value =
    MatrixVal 'm
  | VectorVal vector
  | FloatVal real
  | IntVal int
  | BoolVal bool
  | StrVal string
  | ArrayVal string "vector list"

text \<open>
  Modelled from the spec: the output node representation (\<^verbatim>\<open>NodeTemplate\<close> of
  \<^verbatim>\<open>structures.py\<close>), constructible with (name, type-tag, parent), with settable named
  properties and a queryable type-tag and parent reference. The properties keep the order
  in which they were first set, as a Python dict does.
\<close>

datatype 'm node_template = Node
  (node_name: string)
  (node_type: string)
  (node_parent: "'m node_template option")
  (node_props: "(string \<times> 'm gd_value) list")

definition NodeTemplate ::
  "string \<Rightarrow> string \<Rightarrow> 'm node_template option \<Rightarrow> 'm node_template" where
  "NodeTemplate nm ty par = Node nm ty par []"

definition get_type :: "'m node_template \<Rightarrow> string" where
  "get_type n = node_type n"

definition node_set :: "string \<Rightarrow> 'm gd_value \<Rightarrow> 'm node_template \<Rightarrow> 'm node_template" where
  "node_set k v n =
     Node (node_name n) (node_type n) (node_parent n) (AList.update k v (node_props n))"

definition node_get :: "'m node_template \<Rightarrow> string \<Rightarrow> 'm gd_value option" where
  "node_get n k = map_of (node_props n) k"

text \<open>
  Modelled from the spec: a resource (\<^verbatim>\<open>InternalResource\<close> of \<^verbatim>\<open>structures.py\<close>),
  built from its type and name, with settable named properties.
\<close>

record 'm internal_resource =
  rsc_type :: string
  rsc_name :: string
  rsc_props :: "(string \<times> 'm gd_value) list"

definition InternalResource :: "string \<Rightarrow> string \<Rightarrow> 'm internal_resource" where
  "InternalResource ty nm = \<lparr>rsc_type = ty, rsc_name = nm, rsc_props = []\<rparr>"

definition rsc_set ::
  "string \<Rightarrow> 'm gd_value \<Rightarrow> 'm internal_resource \<Rightarrow> 'm internal_resource" where
  "rsc_set k v r = r\<lparr>rsc_props := AList.update k v (rsc_props r)\<rparr>"

definition rsc_get :: "'m internal_resource \<Rightarrow> string \<Rightarrow> 'm gd_value option" where
  "rsc_get r k = map_of (rsc_props r) k"

text \<open>
  The keys of the resource table: the rigid-body descriptor itself (by identity) for the
  primitive shapes, and the \<^verbatim>\<open>_data\<close> pair (margin, mesh data key) of
  \<^verbatim>\<open>MeshCollisionShapeKey\<close> for the shapes made from a mesh. Two keys of the class
  \<^verbatim>\<open>MeshCollisionShapeKey\<close> are equal when their \<^verbatim>\<open>_data\<close> are.
\<close>

datatype 'k resource_key =
    RigidBodyKey nat
  | MeshCollisionShapeKeyData real 'k

text \<open>
  Modelled from the spec: the resource table and node list of the output document
  (\<^verbatim>\<open>ESCNFile\<close> of \<^verbatim>\<open>structures.py\<close>). The id of a resource is its position in the
  table, counted from 1. The field \<open>log\<close> is not part of the file: it collects the
  messages of \<^verbatim>\<open>logging.warning\<close>, threaded with the same state.
\<close>

record ('m, 'k) escn_file =
  nodes :: "'m node_template list"
  internal_resources :: "'m internal_resource list"
  internal_hashes :: "'k resource_key \<Rightarrow> nat option"
  log :: "string list"

definition empty_escn_file :: "('m, 'k) escn_file" where
  "empty_escn_file =
     \<lparr>nodes = [], internal_resources = [], internal_hashes = (\<lambda>k. None), log = []\<rparr>"

text \<open>Modelled from the spec: lookup without creating.\<close>

definition get_internal_resource ::
  "'k resource_key \<Rightarrow> ('m, 'k) escn_file \<Rightarrow> nat option" where
  "get_internal_resource hashable f = internal_hashes f hashable"

text \<open>Modelled from the spec: always creates a new entry, no deduplication.\<close>

definition force_add_internal_resource ::
  "'m internal_resource \<Rightarrow> ('m, 'k) escn_file \<Rightarrow> nat \<times> ('m, 'k) escn_file" where
  "force_add_internal_resource item f =
     (let rs = internal_resources f @ [item]
      in (length rs, f\<lparr>internal_resources := rs\<rparr>))"

text \<open>
  Modelled from the spec: registers a resource under a cache key, idempotent on repeated
  equal keys (a key already present keeps its id and nothing is added).
\<close>

definition add_internal_resource ::
  "'m internal_resource \<Rightarrow> 'k resource_key \<Rightarrow> ('m, 'k) escn_file \<Rightarrow>
     nat \<times> ('m, 'k) escn_file" where
  "add_internal_resource item hashable f =
     (case get_internal_resource hashable f of
        Some rid \<Rightarrow> (rid, f)
      | None \<Rightarrow>
          (case force_add_internal_resource item f of
             (rid, f') \<Rightarrow> (rid, f'\<lparr>internal_hashes := (internal_hashes f')(hashable \<mapsto> rid)\<rparr>)))"

text \<open>Modelled from the spec: registers a node into the output graph.\<close>

definition add_node :: "'m node_template \<Rightarrow> ('m, 'k) escn_file \<Rightarrow> ('m, 'k) escn_file" where
  "add_node item f = f\<lparr>nodes := nodes f @ [item]\<rparr>"

text \<open>
  An assignment \<^verbatim>\<open>col_shape[k] = v\<close> made after \<^verbatim>\<open>col_shape\<close> was stored in the table
  under the id \<open>rid\<close>: the table holds the same object, so its entry changes.
\<close>

definition set_stored_resource ::
  "nat \<Rightarrow> string \<Rightarrow> 'm gd_value \<Rightarrow> ('m, 'k) escn_file \<Rightarrow> ('m, 'k) escn_file" where
  "set_stored_resource rid k v f =
     f\<lparr>internal_resources :=
         (internal_resources f)[rid - 1 := rsc_set k v (internal_resources f ! (rid - 1))]\<rparr>"

definition logging_warning :: "string \<Rightarrow> ('m, 'k) escn_file \<Rightarrow> ('m, 'k) escn_file" where
  "logging_warning msg f = f\<lparr>log := log f @ [msg]\<rparr>"

subsection \<open>Formatting\<close>

text \<open>Python's \<^verbatim>\<open>str\<close> of a non-negative integer, and of \<^verbatim>\<open>None\<close>.\<close>

fun str_nat :: "nat \<Rightarrow> string" where
  "str_nat n =
     (if n < 10 then [''0123456789'' ! n]
      else str_nat (n div 10) @ [''0123456789'' ! (n mod 10)])"

definition SubResource :: "nat option \<Rightarrow> string" where
  "SubResource shape_id =
     ''SubResource('' @ (case shape_id of None \<Rightarrow> ''None'' | Some i \<Rightarrow> str_nat i) @ '')''"

subsection \<open>Collaborators\<close>

text \<open>
  The mesh that the mesh converter hands over: its name, the coordinates of its vertices,
  its polygons (only their number matters here), and the vertex indices of its loop
  triangles, as \<^verbatim>\<open>calc_loop_triangles\<close> computes them.
\<close>

record mesh =
  mesh_name :: string
  vertices :: "vector list"
  polygons :: "nat list list"
  loop_triangles :: "nat list list"

text \<open>
  What \<^verbatim>\<open>physics.py\<close> imports and does not define, taken as parameters: the matrix
  operations of \<^verbatim>\<open>mathutils\<close> (\<^verbatim>\<open>Matrix.Identity(4)\<close>, \<^verbatim>\<open>@\<close>, \<^verbatim>\<open>inverted_safe\<close>), the
  constant \<^verbatim>\<open>_AXIS_CORRECT\<close>, the key \<^verbatim>\<open>MeshResourceKey\<close> of a mesh and the result of
  \<^verbatim>\<open>MeshConverter(bl_object, export_settings).to_mesh\<close> with vertex groups and tangents
  off. \<open>'e\<close> is the type of the export settings. \<^verbatim>\<open>to_mesh_clear\<close> changes nothing that the
  converter reads and has no counterpart here.
\<close>

record ('m, 'e, 'k) collaborators =
  Identity4 :: 'm
  matmul :: "'m \<Rightarrow> 'm \<Rightarrow> 'm"
  inverted_safe :: "'m \<Rightarrow> 'm"
  AXIS_CORRECT :: 'm
  MeshResourceKey :: "string \<Rightarrow> 'm bl_object \<Rightarrow> 'e \<Rightarrow> 'k"
  to_mesh :: "'m bl_object \<Rightarrow> 'e \<Rightarrow> mesh option"

subsection \<open>Shapes made from a mesh\<close>

text \<open>
  The constructor of the class \<^verbatim>\<open>MeshCollisionShapeKey\<close>: it asserts the shape type,
  builds the mesh data key and reads the margin of the rigid body (0 when the margin is
  not in use).
\<close>

definition MeshCollisionShapeKey ::
  "('m, 'e, 'k) collaborators \<Rightarrow> string \<Rightarrow> 'm bl_object \<Rightarrow> 'e \<Rightarrow> error + 'k resource_key" where
  "MeshCollisionShapeKey c shape_type bl_object export_settings =
     (if shape_type \<noteq> ''ConvexPolygonShape'' \<and> shape_type \<noteq> ''ConcavePolygonShape''
      then Inl AssertionError
      else
        (let mesh_data_key = MeshResourceKey c shape_type bl_object export_settings
         in case rigid_body bl_object of
              None \<Rightarrow> Inl AttributeError
            | Some rbd \<Rightarrow>
                Inr (MeshCollisionShapeKeyData
                       (if use_margin rbd then collision_margin rbd else 0) mesh_data_key)))"

definition generate_convex_shape ::
  "('m, 'e, 'k) collaborators \<Rightarrow> ('m, 'k) escn_file \<Rightarrow> 'e \<Rightarrow> 'm bl_object \<Rightarrow>
     error + (nat option \<times> ('m, 'k) escn_file)" where
  "generate_convex_shape c escn export_settings bl_object =
     (case MeshCollisionShapeKey c ''ConvexPolygonShape'' bl_object export_settings of
        Inl e \<Rightarrow> Inl e
      | Inr shape_rsc_key \<Rightarrow>
          (case get_internal_resource shape_rsc_key escn of
             Some shape_id \<Rightarrow> Inr (Some shape_id, escn)
           | None \<Rightarrow>
               (case to_mesh c bl_object export_settings of
                  None \<Rightarrow> Inr (None, escn)
                | Some mesh \<Rightarrow>
                    (case rigid_body bl_object of
                       None \<Rightarrow> Inl AttributeError
                     | Some rbd \<Rightarrow>
                         (let vert_array = vertices mesh;
                              col_shape = InternalResource ''ConvexPolygonShape'' (mesh_name mesh);
                              col_shape = rsc_set ''points''
                                (ArrayVal ''PoolVector3Array('' vert_array) col_shape;
                              col_shape =
                                (if use_margin rbd
                                 then rsc_set ''margin'' (FloatVal (collision_margin rbd)) col_shape
                                 else col_shape)
                          in case add_internal_resource col_shape shape_rsc_key escn of
                               (shape_id, escn') \<Rightarrow> Inr (Some shape_id, escn'))))))"

text \<open>
  \<^verbatim>\<open>mesh.vertices[vert_id].co\<close> for a list of vertex indices; an index out of range
  raises \<^verbatim>\<open>IndexError\<close>.
\<close>

fun vert_coords :: "vector list \<Rightarrow> nat list \<Rightarrow> error + vector list" where
  "vert_coords vs [] = Inr []"
| "vert_coords vs (vert_id # ids) =
     (if vert_id < length vs
      then (case vert_coords vs ids of
              Inl e \<Rightarrow> Inl e
            | Inr cs \<Rightarrow> Inr (vs ! vert_id # cs))
      else Inl IndexError)"

definition generate_concave_shape ::
  "('m, 'e, 'k) collaborators \<Rightarrow> ('m, 'k) escn_file \<Rightarrow> 'e \<Rightarrow> 'm bl_object \<Rightarrow>
     error + (nat option \<times> ('m, 'k) escn_file)" where
  "generate_concave_shape c escn export_settings bl_object =
     (case MeshCollisionShapeKey c ''ConcavePolygonShape'' bl_object export_settings of
        Inl e \<Rightarrow> Inl e
      | Inr shape_rsc_key \<Rightarrow>
          (case get_internal_resource shape_rsc_key escn of
             Some shape_id \<Rightarrow> Inr (Some shape_id, escn)
           | None \<Rightarrow>
               (case to_mesh c bl_object export_settings of
                  None \<Rightarrow> Inr (None, escn)
                | Some mesh \<Rightarrow>
                    if polygons mesh = [] then Inr (None, escn)
                    else
                      (case vert_coords (vertices mesh)
                              (concat (map rev (loop_triangles mesh))) of
                         Inl e \<Rightarrow> Inl e
                       | Inr vert_array \<Rightarrow>
                           (case rigid_body bl_object of
                              None \<Rightarrow> Inl AttributeError
                            | Some rbd \<Rightarrow>
                                (let col_shape =
                                       InternalResource ''ConcavePolygonShape'' (mesh_name mesh);
                                     col_shape = rsc_set ''data''
                                       (ArrayVal ''PoolVector3Array('' vert_array) col_shape;
                                     col_shape =
                                       (if use_margin rbd
                                        then rsc_set ''margin''
                                               (FloatVal (collision_margin rbd)) col_shape
                                        else col_shape)
                                 in case add_internal_resource col_shape shape_rsc_key escn of
                                      (shape_id, escn') \<Rightarrow> Inr (Some shape_id, escn')))))))"

subsection \<open>Collision shape node\<close>

text \<open>
  The branch of \<^verbatim>\<open>export_collision_shape\<close> for the shapes made from the bounding box.
  It returns \<^verbatim>\<open>shape_id\<close>, \<^verbatim>\<open>col_shape\<close> and the file after the registration.
\<close>

definition primitive_shape ::
  "('m, 'k) escn_file \<Rightarrow> 'm bl_object \<Rightarrow> rigid_body_object \<Rightarrow> string \<Rightarrow> vector \<Rightarrow>
     nat option \<times> 'm internal_resource option \<times> ('m, 'k) escn_file" where
  "primitive_shape escn node rbd col_name bounds =
     (if collision_shape rbd = ''BOX'' then
        (let col_shape = InternalResource ''BoxShape'' col_name;
             col_shape = rsc_set ''extents'' (VectorVal (vec_div bounds 2)) col_shape
         in case add_internal_resource col_shape (RigidBodyKey (ident rbd)) escn of
              (shape_id, escn') \<Rightarrow> (Some shape_id, Some col_shape, escn'))
      else if collision_shape rbd = ''SPHERE'' then
        (let col_shape = InternalResource ''SphereShape'' col_name;
             col_shape = rsc_set ''radius''
               (FloatVal (max (vx bounds) (max (vy bounds) (vz bounds)) / 2)) col_shape
         in case add_internal_resource col_shape (RigidBodyKey (ident rbd)) escn of
              (shape_id, escn') \<Rightarrow> (Some shape_id, Some col_shape, escn'))
      else if collision_shape rbd = ''CAPSULE'' then
        (let col_shape = InternalResource ''CapsuleShape'' col_name;
             radius = max (vx bounds) (vy bounds) / 2;
             col_shape = rsc_set ''radius'' (FloatVal radius) col_shape;
             col_shape = rsc_set ''height'' (FloatVal (vz bounds - radius * 2)) col_shape
         in case add_internal_resource col_shape (RigidBodyKey (ident rbd)) escn of
              (shape_id, escn') \<Rightarrow> (Some shape_id, Some col_shape, escn'))
      else
        (None, None,
         logging_warning (''Unable to export physics shape for '' @ name node) escn))"

text \<open>
  \<^verbatim>\<open>export_collision_shape\<close>. The margin of a primitive shape is assigned to
  \<^verbatim>\<open>col_shape\<close> after its registration: it reaches the table when \<^verbatim>\<open>col_shape\<close> is the
  object that the table holds, that is when its key was new.
\<close>

definition export_collision_shape ::
  "('m, 'e, 'k) collaborators \<Rightarrow> ('m, 'k) escn_file \<Rightarrow> 'e \<Rightarrow> 'm bl_object \<Rightarrow>
     'm node_template option \<Rightarrow> 'm bl_object option \<Rightarrow>
     error + ('m node_template \<times> ('m, 'k) escn_file)" where
  "export_collision_shape c escn export_settings node parent_gd_node parent_override =
     (let col_name = name node @ ''Collision'';
          col_node = NodeTemplate col_name ''CollisionShape'' parent_gd_node;
          transform =
            (case parent_override of
               None \<Rightarrow> Identity4 c
             | Some po \<Rightarrow> matmul c (inverted_safe c (matrix_world po)) (matrix_world node));
          col_node = node_set ''transform'' (MatrixVal transform) col_node;
          col_node = node_set ''transform'' (MatrixVal (matmul c transform (AXIS_CORRECT c))) col_node
      in case rigid_body node of
           None \<Rightarrow> Inl AttributeError
         | Some rbd \<Rightarrow>
             if collision_shape rbd = ''CONVEX_HULL'' \<or> collision_shape rbd = ''MESH'' then
               (case (if collision_shape rbd = ''CONVEX_HULL''
                      then generate_convex_shape c escn export_settings node
                      else generate_concave_shape c escn export_settings node) of
                  Inl e \<Rightarrow> Inl e
                | Inr (shape_id, escn1) \<Rightarrow>
                    (let col_node =
                           (if shape_id \<noteq> None
                            then node_set ''shape'' (StrVal (SubResource shape_id)) col_node
                            else col_node)
                     in Inr (col_node, add_node col_node escn1)))
             else
               (case get_extents node of
                  Inl e \<Rightarrow> Inl e
                | Inr bounds \<Rightarrow>
                    (case primitive_shape escn node rbd col_name bounds of
                       (shape_id, col_shape, escn1) \<Rightarrow>
                         (let col_node =
                                node_set ''shape'' (StrVal (SubResource shape_id)) col_node;
                              escn2 =
                                (if col_shape \<noteq> None \<and> use_margin rbd then
                                   (case (shape_id,
                                          get_internal_resource (RigidBodyKey (ident rbd)) escn) of
                                      (Some rid, None) \<Rightarrow>
                                        set_stored_resource rid ''margin''
                                          (FloatVal (collision_margin rbd)) escn1
                                    | _ \<Rightarrow> escn1)
                                 else escn1)
                          in Inr (col_node, add_node col_node escn2)))))"

subsection \<open>Body node\<close>

text \<open>The loop over \<^verbatim>\<open>enumerate(rbd.collision_collections)\<close>.\<close>

fun col_groups_loop :: "int \<Rightarrow> nat \<Rightarrow> bool list \<Rightarrow> int" where
  "col_groups_loop col_groups offset [] = col_groups"
| "col_groups_loop col_groups offset (flag # flags) =
     col_groups_loop (col_groups + push_bit offset (if flag then 1 else 0)) (Suc offset) flags"

definition export_physics_controller ::
  "('m, 'k) escn_file \<Rightarrow> 'e \<Rightarrow> 'm bl_object \<Rightarrow> 'm node_template option \<Rightarrow>
     error + ('m node_template \<times> ('m, 'k) escn_file)" where
  "export_physics_controller escn export_settings node parent_gd_node =
     (let phys_name = name node @ ''Physics''
      in case rigid_body node of
           None \<Rightarrow> Inl AttributeError
         | Some rbd \<Rightarrow>
             (let phys_controller =
                    (if rbd_type rbd = ''ACTIVE''
                     then (if kinematic rbd then ''KinematicBody'' else ''RigidBody'')
                     else ''StaticBody'');
                  phys_obj = NodeTemplate phys_name phys_controller parent_gd_node;
                  (phys_obj, escn1) =
                    (if phys_controller \<noteq> ''KinematicBody'' then
                       (let physics_mat =
                              InternalResource ''PhysicsMaterial'' (name node @ ''PhysicsMaterial'');
                            physics_mat = rsc_set ''friction'' (FloatVal (friction rbd)) physics_mat;
                            physics_mat = rsc_set ''bounce'' (FloatVal (restitution rbd)) physics_mat
                        in case force_add_internal_resource physics_mat escn of
                             (rid, escn') \<Rightarrow>
                               (node_set ''physics_material_override''
                                  (StrVal (SubResource (Some rid))) phys_obj, escn'))
                     else (phys_obj, escn));
                  col_groups = col_groups_loop 0 0 (collision_collections rbd);
                  phys_obj = node_set ''transform'' (MatrixVal (matrix_local node)) phys_obj;
                  phys_obj = node_set ''collision_layer'' (IntVal col_groups) phys_obj;
                  phys_obj = node_set ''collision_mask'' (IntVal col_groups) phys_obj;
                  phys_obj =
                    (if phys_controller = ''RigidBody'' then
                       (let phys_obj = node_set ''can_sleep'' (BoolVal (use_deactivation rbd)) phys_obj;
                            phys_obj = node_set ''linear_damp'' (FloatVal (linear_damping rbd)) phys_obj;
                            phys_obj = node_set ''angular_damp'' (FloatVal (angular_damping rbd)) phys_obj
                        in node_set ''sleeping'' (BoolVal (use_start_deactivated rbd)) phys_obj)
                     else phys_obj)
              in Inr (phys_obj, add_node phys_obj escn1)))"

subsection \<open>Orchestration\<close>

definition PHYSICS_TYPES :: "string set" where
  "PHYSICS_TYPES = {''KinematicBody'', ''RigidBody'', ''StaticBody''}"

text \<open>
  The loop of \<^verbatim>\<open>export_physics_properties\<close> that follows the parent references of the
  output nodes. The loop tests nothing but the type: on an absent node (\<open>None\<close>) the call
  \<^verbatim>\<open>gd_node_ptr.get_type()\<close> raises \<^verbatim>\<open>AttributeError\<close>.
\<close>

fun trace_physics_node :: "'m node_template option \<Rightarrow> error + 'm node_template" where
  "trace_physics_node None = Inl AttributeError"
| "trace_physics_node (Some (Node nm ty par props)) =
     (if get_type (Node nm ty par props) \<in> PHYSICS_TYPES
      then Inr (Node nm ty par props)
      else trace_physics_node par)"

definition export_physics_properties ::
  "('m, 'e, 'k) collaborators \<Rightarrow> ('m, 'k) escn_file \<Rightarrow> 'e \<Rightarrow> 'm bl_object \<Rightarrow>
     'm node_template option \<Rightarrow> error + ('m node_template \<times> ('m, 'k) escn_file)" where
  "export_physics_properties c escn export_settings node parent_gd_node =
     (let parent_rbd = get_physics_root node
      in case (if parent_rbd = None
               then (case export_physics_controller escn export_settings node parent_gd_node of
                       Inl e \<Rightarrow> Inl e
                     | Inr (phys_obj, escn') \<Rightarrow> Inr (Some phys_obj, escn'))
               else Inr (parent_gd_node, escn)) of
           Inl e \<Rightarrow> Inl e
         | Inr (parent_gd_node, escn1) \<Rightarrow>
             (case trace_physics_node parent_gd_node of
                Inl e \<Rightarrow> Inl e
              | Inr physics_gd_node \<Rightarrow>
                  export_collision_shape c escn1 export_settings node
                    (Some physics_gd_node) parent_rbd))"

text \<open>The chain of output nodes that the loop can visit: the start first, then its parents.\<close>

fun gd_chain :: "'m node_template option \<Rightarrow> 'm node_template list" where
  "gd_chain None = []"
| "gd_chain (Some (Node nm ty par props)) = Node nm ty par props # gd_chain par"

subsection \<open>Invariant of the resource table\<close>

text \<open>
  Every id in the key table points into the resource list, and no two keys share an id.
  It holds for the empty file and every function of the converter keeps it (lemmas
  \<open>escn_wf_*\<close> below).
\<close>

definition escn_wf :: "('m, 'k) escn_file \<Rightarrow> bool" where
  "escn_wf f \<longleftrightarrow>
     (\<forall>k i. internal_hashes f k = Some i \<longrightarrow> 1 \<le> i \<and> i \<le> length (internal_resources f)) \<and>
     (\<forall>k k' i. internal_hashes f k = Some i \<and> internal_hashes f k' = Some i \<longrightarrow> k = k')"

text \<open>
  What one request for a shape may do to the table, for the key \<open>K\<close> of the request: return
  the id stored under \<open>K\<close>, or produce nothing, or register a new resource under \<open>K\<close>.
\<close>

definition table_step ::
  "('m, 'k) escn_file \<Rightarrow> 'k resource_key \<Rightarrow> nat option \<Rightarrow> ('m, 'k) escn_file \<Rightarrow> bool" where
  "table_step f K r f' \<longleftrightarrow>
     (\<exists>i. internal_hashes f K = Some i \<and> r = Some i \<and> f' = f) \<or>
     (internal_hashes f K = None \<and> r = None \<and> f' = f) \<or>
     (internal_hashes f K = None \<and>
      (\<exists>item i. add_internal_resource item K f = (i, f') \<and> r = Some i))"

subsection \<open>A concrete scene\<close>

text \<open>
  Inputs on which the functions are evaluated below. Matrices are symbolic terms; every
  object uses the same mesh, a single triangle, so the mesh data key is the shape type alone.
\<close>

datatype sym_matrix =
    Named string
  | Ident
  | AxisCorrect
  | Inverted sym_matrix
  | Mul sym_matrix sym_matrix

definition triangle_mesh :: mesh where
  "triangle_mesh =
     \<lparr>mesh_name = ''Mesh'', vertices = [Vector 0 0 0, Vector 1 0 0, Vector 0 1 0],
      polygons = [[0, 1, 2]], loop_triangles = [[0, 1, 2]]\<rparr>"

definition empty_mesh :: mesh where
  "empty_mesh = \<lparr>mesh_name = ''Mesh'', vertices = [], polygons = [], loop_triangles = []\<rparr>"

definition sym_collaborators :: "(sym_matrix, unit, string) collaborators" where
  "sym_collaborators =
     \<lparr>Identity4 = Ident, matmul = Mul, inverted_safe = Inverted, AXIS_CORRECT = AxisCorrect,
      MeshResourceKey = (\<lambda>shape_type bl_object export_settings. shape_type),
      to_mesh = (\<lambda>bl_object export_settings. Some triangle_mesh)\<rparr>"

definition rbd_box :: rigid_body_object where
  "rbd_box =
     \<lparr>ident = 0, collision_shape = ''BOX'', rbd_type = ''ACTIVE'', kinematic = False,
      use_margin = False, collision_margin = 0, friction = 1 / 2, restitution = 0,
      collision_collections = [True, False, True], use_deactivation = True,
      linear_damping = 0, angular_damping = 0, use_start_deactivated = False\<rparr>"

text \<open>The eight corners of a box of size 2 by 2 by 4.\<close>

definition box224 :: "vector list" where
  "box224 =
     [Vector (- 1) (- 1) (- 2), Vector (- 1) (- 1) 2, Vector (- 1) 1 2, Vector (- 1) 1 (- 2),
      Vector 1 (- 1) (- 2), Vector 1 (- 1) 2, Vector 1 1 2, Vector 1 1 (- 2)]"

text \<open>A chain of four objects, from the top down: \<open>obj_top\<close> without physics, \<open>obj_a\<close> and
  \<open>obj_b\<close> with physics, \<open>obj_c\<close> without.\<close>

definition obj_top :: "sym_matrix bl_object" where
  "obj_top = BlObject ''Top'' None None box224 (Named ''TopWorld'') (Named ''TopLocal'')"

definition obj_a :: "sym_matrix bl_object" where
  "obj_a =
     BlObject ''A'' (Some obj_top) (Some rbd_box) box224 (Named ''AWorld'') (Named ''ALocal'')"

definition obj_b :: "sym_matrix bl_object" where
  "obj_b =
     BlObject ''B'' (Some obj_a) (Some (rbd_box\<lparr>ident := 1, collision_shape := ''CAPSULE''\<rparr>))
       box224 (Named ''BWorld'') (Named ''BLocal'')"

definition obj_c :: "sym_matrix bl_object" where
  "obj_c = BlObject ''C'' (Some obj_b) None box224 (Named ''CWorld'') (Named ''CLocal'')"

text \<open>An object of its own, with the rigid body \<open>rbd\<close>.\<close>

definition obj_with :: "rigid_body_object \<Rightarrow> sym_matrix bl_object" where
  "obj_with rbd = BlObject ''Obj'' None (Some rbd) box224 (Named ''World'') (Named ''Local'')"

text \<open>
  Two objects with a convex hull shape and two with a box shape; all four have the same
  bounding box and the same mesh, and differ in the identity of their rigid bodies.
\<close>

definition obj_convex :: "sym_matrix bl_object" where
  "obj_convex = obj_with (rbd_box\<lparr>ident := 2, collision_shape := ''CONVEX_HULL''\<rparr>)"

definition obj_convex2 :: "sym_matrix bl_object" where
  "obj_convex2 = obj_with (rbd_box\<lparr>ident := 3, collision_shape := ''CONVEX_HULL''\<rparr>)"

definition obj_box :: "sym_matrix bl_object" where
  "obj_box = obj_with (rbd_box\<lparr>ident := 4\<rparr>)"

definition obj_box2 :: "sym_matrix bl_object" where
  "obj_box2 = obj_with (rbd_box\<lparr>ident := 5\<rparr>)"

text \<open>A mesh converter that returns no mesh, and one that returns a mesh without geometry.\<close>

definition no_mesh_collaborators :: "(sym_matrix, unit, string) collaborators" where
  "no_mesh_collaborators =
     sym_collaborators\<lparr>to_mesh := (\<lambda>bl_object export_settings. None)\<rparr>"

definition empty_mesh_collaborators :: "(sym_matrix, unit, string) collaborators" where
  "empty_mesh_collaborators =
     sym_collaborators\<lparr>to_mesh := (\<lambda>bl_object export_settings. Some empty_mesh)\<rparr>"

text \<open>The export of \<open>obj_convex\<close> into the empty file when its mesh has no geometry.\<close>

definition empty_convex_export ::
  "error + (sym_matrix node_template \<times> (sym_matrix, string) escn_file)" where
  "empty_convex_export =
     export_collision_shape empty_mesh_collaborators empty_escn_file () obj_convex None None"

text \<open>
  An object whose bounding box is flat (height 0) with a capsule shape, and an object with
  a convex hull shape whose margin is in use.
\<close>

definition flat_box :: "vector list" where
  "flat_box =
     [Vector (- 1) (- 1) 0, Vector (- 1) 1 0, Vector 1 (- 1) 0, Vector 1 1 0,
      Vector (- 1) (- 1) 0, Vector (- 1) 1 0, Vector 1 (- 1) 0, Vector 1 1 0]"

definition obj_flat :: "sym_matrix bl_object" where
  "obj_flat =
     BlObject ''Flat'' None (Some (rbd_box\<lparr>ident := 6, collision_shape := ''CAPSULE''\<rparr>))
       flat_box (Named ''World'') (Named ''Local'')"

definition obj_margin :: "sym_matrix bl_object" where
  "obj_margin =
     obj_with (rbd_box\<lparr>ident := 7, collision_shape := ''CONVEX_HULL'', use_margin := True,
                       collision_margin := 1 / 25\<rparr>)"

section \<open>Properties\<close>

subsection \<open>Evaluation on the concrete scene\<close>

text \<open>
  The defining equations, grouped for the evaluation of the functions on concrete inputs.
\<close>

lemmas scene_defs = sym_collaborators_def triangle_mesh_def empty_mesh_def rbd_box_def box224_def
  obj_top_def obj_a_def obj_b_def obj_c_def obj_with_def empty_escn_file_def
  obj_convex_def obj_convex2_def obj_box_def obj_box2_def no_mesh_collaborators_def
  empty_mesh_collaborators_def flat_box_def obj_flat_def obj_margin_def

lemmas converter_defs = export_collision_shape_def primitive_shape_def get_extents_def
  extents_step_def vec_sub_def vec_div_def generate_convex_shape_def generate_concave_shape_def
  MeshCollisionShapeKey_def export_physics_controller_def export_physics_properties_def
  get_physics_root_def

lemmas structure_defs = NodeTemplate_def node_set_def node_get_def get_type_def
  InternalResource_def rsc_set_def rsc_get_def get_internal_resource_def
  add_internal_resource_def force_add_internal_resource_def add_node_def
  set_stored_resource_def logging_warning_def SubResource_def PHYSICS_TYPES_def

subsection \<open>Hierarchy\<close>

lemma get_physics_root_loop_ancestors:
  "get_physics_root_loop acc node =
     (if filter has_physics (ancestors node) = [] then acc
      else Some (last (filter has_physics (ancestors node))))"
proof (induction acc node rule: get_physics_root_loop.induct)
  case (1 parent_rbd n rb bb mw ml)
  show ?case by simp
next
  case (2 parent_rbd n p rb bb mw ml)
  then show ?case by (simp add: has_physics_def)
qed

text \<open>
  Claim C1. \<^verbatim>\<open>get_physics_root\<close> goes through all ancestors, from the immediate parent to
  the top of the hierarchy, and returns the last ancestor with physics that it meets on
  the way up, that is the upper-most one and not the nearest; it returns \<open>None\<close> when no
  ancestor has physics.
\<close>

theorem get_physics_root_uppermost:
  "get_physics_root node =
     (if filter has_physics (ancestors node) = [] then None
      else Some (last (filter has_physics (ancestors node))))"
  unfolding get_physics_root_def by (rule get_physics_root_loop_ancestors)

text \<open>
  On the chain of the scene: \<open>obj_a\<close> is a physics root; for \<open>obj_b\<close> the only ancestor with
  physics is \<open>obj_a\<close>; for \<open>obj_c\<close> the nearest ancestor with physics is its parent \<open>obj_b\<close>,
  and the result is the upper one, \<open>obj_a\<close>.
\<close>

lemma get_physics_root_examples:
  "get_physics_root obj_top = None \<and> get_physics_root obj_a = None \<and>
   get_physics_root obj_b = Some obj_a \<and> get_physics_root obj_c = Some obj_a \<and>
   parent obj_c = Some obj_b \<and> has_physics obj_b \<and> obj_a \<noteq> obj_b"
  by (simp add: get_physics_root_def has_physics_def obj_top_def obj_a_def obj_b_def obj_c_def)

subsection \<open>Nodes and resources\<close>

lemma node_get_node_set:
  "node_get (node_set k v n) k' = (if k' = k then Some v else node_get n k')"
  by (simp add: node_get_def node_set_def update_conv)

lemma node_get_NodeTemplate: "node_get (NodeTemplate nm ty par) k = None"
  by (simp add: node_get_def NodeTemplate_def)

lemma get_type_node_set: "get_type (node_set k v n) = get_type n"
  by (simp add: node_set_def get_type_def)

lemma get_type_NodeTemplate: "get_type (NodeTemplate nm ty par) = ty"
  by (simp add: get_type_def NodeTemplate_def)

lemma node_parent_node_set: "node_parent (node_set k v n) = node_parent n"
  by (simp add: node_set_def)

lemma node_parent_NodeTemplate: "node_parent (NodeTemplate nm ty par) = par"
  by (simp add: NodeTemplate_def)

lemma rsc_get_rsc_set:
  "rsc_get (rsc_set k v r) k' = (if k' = k then Some v else rsc_get r k')"
  by (simp add: rsc_get_def rsc_set_def update_conv)

lemma rsc_type_rsc_set: "rsc_type (rsc_set k v r) = rsc_type r"
  by (simp add: rsc_set_def)

subsection \<open>The resource table\<close>

lemma escn_wf_empty: "escn_wf empty_escn_file"
  by (simp add: escn_wf_def empty_escn_file_def)

lemma escn_wf_add_node: "escn_wf f \<Longrightarrow> escn_wf (add_node n f)"
  by (simp add: escn_wf_def add_node_def)

lemma escn_wf_logging_warning: "escn_wf f \<Longrightarrow> escn_wf (logging_warning msg f)"
  by (simp add: escn_wf_def logging_warning_def)

lemma escn_wf_set_stored_resource: "escn_wf f \<Longrightarrow> escn_wf (set_stored_resource rid k v f)"
  by (simp add: escn_wf_def set_stored_resource_def)

lemma escn_wf_force_add:
  "escn_wf f \<Longrightarrow> force_add_internal_resource item f = (rid, f') \<Longrightarrow> escn_wf f'"
  by (fastforce simp add: escn_wf_def force_add_internal_resource_def Let_def)

lemma escn_wf_add:
  assumes "escn_wf f" and "add_internal_resource item k f = (rid, f')"
  shows "escn_wf f'"
proof (cases "internal_hashes f k")
  case None
  with assms(2) have f': "f' = f\<lparr>internal_resources := internal_resources f @ [item],
       internal_hashes := (internal_hashes f)(k \<mapsto> Suc (length (internal_resources f)))\<rparr>"
    by (auto simp add: add_internal_resource_def get_internal_resource_def
        force_add_internal_resource_def Let_def)
  from assms(1) show ?thesis
    unfolding f' escn_wf_def by (fastforce split: if_splits)
next
  case (Some i)
  with assms show ?thesis
    by (simp add: add_internal_resource_def get_internal_resource_def)
qed

lemma escn_wf_inj:
  "escn_wf f \<Longrightarrow> internal_hashes f k = Some i \<Longrightarrow> internal_hashes f k' = Some i' \<Longrightarrow>
   k \<noteq> k' \<Longrightarrow> i \<noteq> i'"
  unfolding escn_wf_def by blast

lemma add_internal_resource_lookup:
  "add_internal_resource item k f = (rid, f') \<Longrightarrow> internal_hashes f' k = Some rid"
  by (auto simp add: add_internal_resource_def get_internal_resource_def
      force_add_internal_resource_def Let_def split: option.splits)

lemma add_internal_resource_keeps:
  "add_internal_resource item k f = (rid, f') \<Longrightarrow> internal_hashes f k' = Some j \<Longrightarrow>
   internal_hashes f' k' = Some j"
  by (auto simp add: add_internal_resource_def get_internal_resource_def
      force_add_internal_resource_def Let_def split: option.splits)

lemma add_internal_resource_length:
  "add_internal_resource item k f = (rid, f') \<Longrightarrow>
   length (internal_resources f') =
     length (internal_resources f) + (if internal_hashes f k = None then 1 else 0)"
  by (auto simp add: add_internal_resource_def get_internal_resource_def
      force_add_internal_resource_def Let_def split: option.splits)

lemma add_internal_resource_frame:
  "add_internal_resource item k f = (rid, f') \<Longrightarrow> nodes f' = nodes f \<and> log f' = log f"
  by (auto simp add: add_internal_resource_def get_internal_resource_def
      force_add_internal_resource_def Let_def split: option.splits)

lemma add_internal_resource_new:
  "internal_hashes f k = None \<Longrightarrow>
   add_internal_resource item k f =
     (Suc (length (internal_resources f)),
      f\<lparr>internal_resources := internal_resources f @ [item],
        internal_hashes := (internal_hashes f)(k \<mapsto> Suc (length (internal_resources f)))\<rparr>)"
  by (simp add: add_internal_resource_def get_internal_resource_def
      force_add_internal_resource_def Let_def)

lemma internal_hashes_add_node [simp]: "internal_hashes (add_node n f) = internal_hashes f"
  by (simp add: add_node_def)

lemma internal_hashes_set_stored [simp]:
  "internal_hashes (set_stored_resource rid k v f) = internal_hashes f"
  by (simp add: set_stored_resource_def)

lemma internal_hashes_logging [simp]: "internal_hashes (logging_warning msg f) = internal_hashes f"
  by (simp add: logging_warning_def)

lemma table_step_wf: "table_step f K r f' \<Longrightarrow> escn_wf f \<Longrightarrow> escn_wf f'"
  unfolding table_step_def by (auto intro: escn_wf_add)

lemma table_step_lookup: "table_step f K (Some i) f' \<Longrightarrow> internal_hashes f' K = Some i"
  unfolding table_step_def by (auto dest: add_internal_resource_lookup)

lemma table_step_keeps:
  "table_step f K r f' \<Longrightarrow> internal_hashes f K' = Some j \<Longrightarrow> internal_hashes f' K' = Some j"
  unfolding table_step_def by (auto dest: add_internal_resource_keeps)

lemma table_step_length:
  "table_step f K r f' \<Longrightarrow>
   length (internal_resources f') =
     length (internal_resources f) + (if r \<noteq> None \<and> internal_hashes f K = None then 1 else 0)"
  unfolding table_step_def by (auto dest: add_internal_resource_length)

lemma table_step_frame: "table_step f K r f' \<Longrightarrow> nodes f' = nodes f \<and> log f' = log f"
  unfolding table_step_def by (auto dest: add_internal_resource_frame)

lemma table_step_distinct:
  assumes wf: "escn_wf f"
    and s1: "table_step f K1 (Some i1) f1"
    and s2: "table_step f1 K2 r f2"
    and ne: "K1 \<noteq> K2"
  shows "r \<noteq> Some i1"
proof
  assume r: "r = Some i1"
  have wf2: "escn_wf f2" using wf s1 s2 by (blast intro: table_step_wf)
  have "internal_hashes f1 K1 = Some i1" using s1 by (rule table_step_lookup)
  then have a: "internal_hashes f2 K1 = Some i1" using s2 by (rule table_step_keeps[rotated])
  have b: "internal_hashes f2 K2 = Some i1" using s2 unfolding r by (rule table_step_lookup)
  from escn_wf_inj[OF wf2 a b ne] show False by simp
qed

subsection \<open>Shapes made from a mesh\<close>

lemma generate_convex_shape_step:
  "generate_convex_shape c f es ob = Inr (r, f') \<Longrightarrow>
   \<exists>K. MeshCollisionShapeKey c ''ConvexPolygonShape'' ob es = Inr K \<and> table_step f K r f'"
  unfolding generate_convex_shape_def table_step_def get_internal_resource_def Let_def
  by (fastforce split: sum.splits option.splits prod.splits)

lemma generate_concave_shape_step:
  "generate_concave_shape c f es ob = Inr (r, f') \<Longrightarrow>
   \<exists>K. MeshCollisionShapeKey c ''ConcavePolygonShape'' ob es = Inr K \<and> table_step f K r f'"
  unfolding generate_concave_shape_def table_step_def get_internal_resource_def Let_def
  by (fastforce split: sum.splits option.splits prod.splits if_splits)

lemma generate_convex_shape_hit:
  "MeshCollisionShapeKey c ''ConvexPolygonShape'' ob es = Inr K \<Longrightarrow>
   internal_hashes f K = Some i \<Longrightarrow> generate_convex_shape c f es ob = Inr (Some i, f)"
  by (simp add: generate_convex_shape_def get_internal_resource_def)

lemma generate_concave_shape_hit:
  "MeshCollisionShapeKey c ''ConcavePolygonShape'' ob es = Inr K \<Longrightarrow>
   internal_hashes f K = Some i \<Longrightarrow> generate_concave_shape c f es ob = Inr (Some i, f)"
  by (simp add: generate_concave_shape_def get_internal_resource_def)

lemma escn_wf_generate_convex_shape:
  assumes "escn_wf f" and "generate_convex_shape c f es ob = Inr (r, f')"
  shows "escn_wf f'"
proof -
  from generate_convex_shape_step[OF assms(2)] obtain K where "table_step f K r f'" by blast
  then show ?thesis using assms(1) by (rule table_step_wf)
qed

lemma escn_wf_generate_concave_shape:
  assumes "escn_wf f" and "generate_concave_shape c f es ob = Inr (r, f')"
  shows "escn_wf f'"
proof -
  from generate_concave_shape_step[OF assms(2)] obtain K where "table_step f K r f'" by blast
  then show ?thesis using assms(1) by (rule table_step_wf)
qed

lemma generate_convex_shape_ready:
  assumes "rigid_body ob = Some rbd" and "to_mesh c ob es = Some mesh"
  shows "\<exists>i f'. generate_convex_shape c f es ob = Inr (Some i, f')"
  using assms
  by (simp add: generate_convex_shape_def MeshCollisionShapeKey_def Let_def
      split: option.split prod.split)

lemma generate_concave_shape_ready:
  assumes "rigid_body ob = Some rbd" and "to_mesh c ob es = Some mesh"
    and "polygons mesh \<noteq> []"
    and "vert_coords (vertices mesh) (concat (map rev (loop_triangles mesh))) = Inr va"
  shows "\<exists>i f'. generate_concave_shape c f es ob = Inr (Some i, f')"
  using assms
  by (simp add: generate_concave_shape_def MeshCollisionShapeKey_def Let_def
      split: option.split prod.split)

lemma MeshCollisionShapeKey_rigid_body:
  assumes "rigid_body ob = Some rbd"
    and "shape_type = ''ConvexPolygonShape'' \<or> shape_type = ''ConcavePolygonShape''"
  shows "MeshCollisionShapeKey c shape_type ob es =
           Inr (MeshCollisionShapeKeyData (if use_margin rbd then collision_margin rbd else 0)
                  (MeshResourceKey c shape_type ob es))"
  using assms by (auto simp add: MeshCollisionShapeKey_def)

lemma table_step_pair:
  assumes wf: "escn_wf escn"
    and s1: "table_step escn (MeshCollisionShapeKeyData m1 g) (Some i1) escn1"
    and s2: "table_step escn1 (MeshCollisionShapeKeyData m2 g) (Some i2) escn2"
  shows "get_internal_resource (MeshCollisionShapeKeyData m1 g) escn2 = Some i1 \<and>
         get_internal_resource (MeshCollisionShapeKeyData m2 g) escn2 = Some i2 \<and>
         (m1 = m2 \<longrightarrow>
            i2 = i1 \<and> escn2 = escn1 \<and>
            length (internal_resources escn2) =
              length (internal_resources escn) +
              (if get_internal_resource (MeshCollisionShapeKeyData m1 g) escn = None
               then 1 else 0)) \<and>
         (m1 \<noteq> m2 \<longrightarrow> i2 \<noteq> i1)"
proof -
  let ?K1 = "MeshCollisionShapeKeyData m1 g"
  let ?K2 = "MeshCollisionShapeKeyData m2 g"
  have l1: "internal_hashes escn1 ?K1 = Some i1" using s1 by (rule table_step_lookup)
  have l2: "internal_hashes escn2 ?K2 = Some i2" using s2 by (rule table_step_lookup)
  have l1': "internal_hashes escn2 ?K1 = Some i1" using s2 l1 by (rule table_step_keeps)
  have len1: "length (internal_resources escn1) =
      length (internal_resources escn) + (if internal_hashes escn ?K1 = None then 1 else 0)"
    using table_step_length[OF s1] by simp
  have same: "i2 = i1 \<and> escn2 = escn1" if "m1 = m2"
    using s2 l1 that unfolding table_step_def by auto
  have diff: "i2 \<noteq> i1" if "m1 \<noteq> m2"
    using table_step_distinct[OF wf s1 s2] that by simp
  show ?thesis
    using l1' l2 len1 same diff by (auto simp add: get_internal_resource_def)
qed

text \<open>
  Claim C2. The shapes made from a mesh, convex and concave, are looked up and registered
  under the pair (margin, mesh data key), where the margin is \<^verbatim>\<open>collision_margin\<close> when
  \<^verbatim>\<open>use_margin\<close> is set and 0 otherwise. Take two objects with rigid bodies and the same
  mesh data key, for which the mesh converter returns a mesh (for the concave shape: with
  polygons, and with loop triangles over existing vertices), and request a shape of the
  same kind for the first and then for the second. Both requests return an id. If the
  margins are equal, the second id is the first and the second request leaves the file as
  it is: the key holds that id, and the two requests together have added one resource when
  the key was new and none otherwise. If the margins differ, the two ids are distinct.
\<close>

theorem mesh_shape_get_or_create:
  assumes wf: "escn_wf escn"
    and rb1: "rigid_body ob1 = Some rbd1"
    and rb2: "rigid_body ob2 = Some rbd2"
    and m1: "m1 = (if use_margin rbd1 then collision_margin rbd1 else 0)"
    and m2: "m2 = (if use_margin rbd2 then collision_margin rbd2 else 0)"
    and geo_convex: "MeshResourceKey c ''ConvexPolygonShape'' ob1 es = g_convex"
      "MeshResourceKey c ''ConvexPolygonShape'' ob2 es = g_convex"
    and geo_concave: "MeshResourceKey c ''ConcavePolygonShape'' ob1 es = g_concave"
      "MeshResourceKey c ''ConcavePolygonShape'' ob2 es = g_concave"
    and mesh1: "to_mesh c ob1 es = Some mesh1"
    and mesh2: "to_mesh c ob2 es = Some mesh2"
  shows
    "(\<exists>i1 escn1 i2 escn2.
        generate_convex_shape c escn es ob1 = Inr (Some i1, escn1) \<and>
        generate_convex_shape c escn1 es ob2 = Inr (Some i2, escn2) \<and>
        get_internal_resource (MeshCollisionShapeKeyData m1 g_convex) escn2 = Some i1 \<and>
        get_internal_resource (MeshCollisionShapeKeyData m2 g_convex) escn2 = Some i2 \<and>
        (m1 = m2 \<longrightarrow>
           i2 = i1 \<and> escn2 = escn1 \<and>
           length (internal_resources escn2) =
             length (internal_resources escn) +
             (if get_internal_resource (MeshCollisionShapeKeyData m1 g_convex) escn = None
              then 1 else 0)) \<and>
        (m1 \<noteq> m2 \<longrightarrow> i2 \<noteq> i1)) \<and>
     (polygons mesh1 \<noteq> [] \<and> polygons mesh2 \<noteq> [] \<and>
      \<not> isl (vert_coords (vertices mesh1) (concat (map rev (loop_triangles mesh1)))) \<and>
      \<not> isl (vert_coords (vertices mesh2) (concat (map rev (loop_triangles mesh2)))) \<longrightarrow>
      (\<exists>i1 escn1 i2 escn2.
        generate_concave_shape c escn es ob1 = Inr (Some i1, escn1) \<and>
        generate_concave_shape c escn1 es ob2 = Inr (Some i2, escn2) \<and>
        get_internal_resource (MeshCollisionShapeKeyData m1 g_concave) escn2 = Some i1 \<and>
        get_internal_resource (MeshCollisionShapeKeyData m2 g_concave) escn2 = Some i2 \<and>
        (m1 = m2 \<longrightarrow>
           i2 = i1 \<and> escn2 = escn1 \<and>
           length (internal_resources escn2) =
             length (internal_resources escn) +
             (if get_internal_resource (MeshCollisionShapeKeyData m1 g_concave) escn = None
              then 1 else 0)) \<and>
        (m1 \<noteq> m2 \<longrightarrow> i2 \<noteq> i1)))"
proof (intro conjI impI)
  from generate_convex_shape_ready[OF rb1 mesh1] obtain i1 escn1 where
    r1: "generate_convex_shape c escn es ob1 = Inr (Some i1, escn1)" by blast
  from generate_convex_shape_ready[OF rb2 mesh2] obtain i2 escn2 where
    r2: "generate_convex_shape c escn1 es ob2 = Inr (Some i2, escn2)" by blast
  have k1: "MeshCollisionShapeKey c ''ConvexPolygonShape'' ob1 es =
      Inr (MeshCollisionShapeKeyData m1 g_convex)"
    using MeshCollisionShapeKey_rigid_body[OF rb1, of "''ConvexPolygonShape''" c es] m1 geo_convex
    by simp
  have k2: "MeshCollisionShapeKey c ''ConvexPolygonShape'' ob2 es =
      Inr (MeshCollisionShapeKeyData m2 g_convex)"
    using MeshCollisionShapeKey_rigid_body[OF rb2, of "''ConvexPolygonShape''" c es] m2 geo_convex
    by simp
  have s1: "table_step escn (MeshCollisionShapeKeyData m1 g_convex) (Some i1) escn1"
    using generate_convex_shape_step[OF r1] k1 by simp
  have s2: "table_step escn1 (MeshCollisionShapeKeyData m2 g_convex) (Some i2) escn2"
    using generate_convex_shape_step[OF r2] k2 by simp
  from table_step_pair[OF wf s1 s2] r1 r2
  show "\<exists>i1 escn1 i2 escn2.
        generate_convex_shape c escn es ob1 = Inr (Some i1, escn1) \<and>
        generate_convex_shape c escn1 es ob2 = Inr (Some i2, escn2) \<and>
        get_internal_resource (MeshCollisionShapeKeyData m1 g_convex) escn2 = Some i1 \<and>
        get_internal_resource (MeshCollisionShapeKeyData m2 g_convex) escn2 = Some i2 \<and>
        (m1 = m2 \<longrightarrow>
           i2 = i1 \<and> escn2 = escn1 \<and>
           length (internal_resources escn2) =
             length (internal_resources escn) +
             (if get_internal_resource (MeshCollisionShapeKeyData m1 g_convex) escn = None
              then 1 else 0)) \<and>
        (m1 \<noteq> m2 \<longrightarrow> i2 \<noteq> i1)"
    by blast
next
  assume ready: "polygons mesh1 \<noteq> [] \<and> polygons mesh2 \<noteq> [] \<and>
      \<not> isl (vert_coords (vertices mesh1) (concat (map rev (loop_triangles mesh1)))) \<and>
      \<not> isl (vert_coords (vertices mesh2) (concat (map rev (loop_triangles mesh2))))"
  then obtain va1 va2 where
      v1: "vert_coords (vertices mesh1) (concat (map rev (loop_triangles mesh1))) = Inr va1"
    and v2: "vert_coords (vertices mesh2) (concat (map rev (loop_triangles mesh2))) = Inr va2"
    by (metis sum.collapse(2))
  from ready have p1: "polygons mesh1 \<noteq> []" and p2: "polygons mesh2 \<noteq> []" by simp_all
  from generate_concave_shape_ready[OF rb1 mesh1 p1 v1] obtain i1 escn1 where
    r1: "generate_concave_shape c escn es ob1 = Inr (Some i1, escn1)" by blast
  from generate_concave_shape_ready[OF rb2 mesh2 p2 v2] obtain i2 escn2 where
    r2: "generate_concave_shape c escn1 es ob2 = Inr (Some i2, escn2)" by blast
  have k1: "MeshCollisionShapeKey c ''ConcavePolygonShape'' ob1 es =
      Inr (MeshCollisionShapeKeyData m1 g_concave)"
    using MeshCollisionShapeKey_rigid_body[OF rb1, of "''ConcavePolygonShape''" c es] m1 geo_concave
    by simp
  have k2: "MeshCollisionShapeKey c ''ConcavePolygonShape'' ob2 es =
      Inr (MeshCollisionShapeKeyData m2 g_concave)"
    using MeshCollisionShapeKey_rigid_body[OF rb2, of "''ConcavePolygonShape''" c es] m2 geo_concave
    by simp
  have s1: "table_step escn (MeshCollisionShapeKeyData m1 g_concave) (Some i1) escn1"
    using generate_concave_shape_step[OF r1] k1 by simp
  have s2: "table_step escn1 (MeshCollisionShapeKeyData m2 g_concave) (Some i2) escn2"
    using generate_concave_shape_step[OF r2] k2 by simp
  from table_step_pair[OF wf s1 s2] r1 r2
  show "\<exists>i1 escn1 i2 escn2.
        generate_concave_shape c escn es ob1 = Inr (Some i1, escn1) \<and>
        generate_concave_shape c escn1 es ob2 = Inr (Some i2, escn2) \<and>
        get_internal_resource (MeshCollisionShapeKeyData m1 g_concave) escn2 = Some i1 \<and>
        get_internal_resource (MeshCollisionShapeKeyData m2 g_concave) escn2 = Some i2 \<and>
        (m1 = m2 \<longrightarrow>
           i2 = i1 \<and> escn2 = escn1 \<and>
           length (internal_resources escn2) =
             length (internal_resources escn) +
             (if get_internal_resource (MeshCollisionShapeKeyData m1 g_concave) escn = None
              then 1 else 0)) \<and>
        (m1 \<noteq> m2 \<longrightarrow> i2 \<noteq> i1)"
    by blast
qed

theorem mesh_shape_get_or_create_witness:
  "escn_wf (empty_escn_file :: (sym_matrix, string) escn_file) \<and>
   to_mesh sym_collaborators obj_convex () = Some triangle_mesh \<and>
   polygons triangle_mesh \<noteq> [] \<and>
   \<not> isl (vert_coords (vertices triangle_mesh) (concat (map rev (loop_triangles triangle_mesh)))) \<and>
   (\<exists>i1 escn1 i2 escn2.
      generate_convex_shape sym_collaborators
        (empty_escn_file :: (sym_matrix, string) escn_file) () obj_convex = Inr (Some i1, escn1) \<and>
      generate_convex_shape sym_collaborators escn1 () obj_convex2 = Inr (Some i2, escn2) \<and>
      i2 = i1 \<and> escn2 = escn1 \<and> length (internal_resources escn2) = 1) \<and>
   (\<exists>i1 escn1 i2 escn2.
      generate_concave_shape sym_collaborators
        (empty_escn_file :: (sym_matrix, string) escn_file) () obj_convex = Inr (Some i1, escn1) \<and>
      generate_concave_shape sym_collaborators escn1 () obj_convex2 = Inr (Some i2, escn2) \<and>
      i2 = i1 \<and> escn2 = escn1 \<and> length (internal_resources escn2) = 1) \<and>
   (\<exists>i1 escn1 i2 escn2.
      generate_convex_shape sym_collaborators
        (empty_escn_file :: (sym_matrix, string) escn_file) () obj_convex = Inr (Some i1, escn1) \<and>
      generate_convex_shape sym_collaborators escn1 () obj_margin = Inr (Some i2, escn2) \<and>
      i2 \<noteq> i1) \<and>
   (\<exists>i1 escn1 i2 escn2.
      generate_concave_shape sym_collaborators
        (empty_escn_file :: (sym_matrix, string) escn_file) () obj_convex = Inr (Some i1, escn1) \<and>
      generate_concave_shape sym_collaborators escn1 () obj_margin = Inr (Some i2, escn2) \<and>
      i2 \<noteq> i1)"
proof -
  let ?e = "empty_escn_file :: (sym_matrix, string) escn_file"
  let ?r1 = "rbd_box\<lparr>ident := 2, collision_shape := ''CONVEX_HULL''\<rparr>"
  let ?r2 = "rbd_box\<lparr>ident := 3, collision_shape := ''CONVEX_HULL''\<rparr>"
  let ?r3 = "rbd_box\<lparr>ident := 7, collision_shape := ''CONVEX_HULL'', use_margin := True,
                     collision_margin := 1 / 25\<rparr>"
  have rb1: "rigid_body obj_convex = Some ?r1" by (simp add: obj_convex_def obj_with_def)
  have rb2: "rigid_body obj_convex2 = Some ?r2" by (simp add: obj_convex2_def obj_with_def)
  have rb3: "rigid_body obj_margin = Some ?r3" by (simp add: obj_margin_def obj_with_def)
  have m1: "(0::real) = (if use_margin ?r1 then collision_margin ?r1 else 0)"
    by (simp add: rbd_box_def)
  have m2: "(0::real) = (if use_margin ?r2 then collision_margin ?r2 else 0)"
    by (simp add: rbd_box_def)
  have m3: "(1 / 25 :: real) = (if use_margin ?r3 then collision_margin ?r3 else 0)"
    by simp
  have g: "MeshResourceKey sym_collaborators ''ConvexPolygonShape'' ob () = ''ConvexPolygonShape''"
    "MeshResourceKey sym_collaborators ''ConcavePolygonShape'' ob () = ''ConcavePolygonShape''"
    for ob
    by (simp_all add: sym_collaborators_def)
  have mesh: "to_mesh sym_collaborators ob () = Some triangle_mesh" for ob
    by (simp add: sym_collaborators_def)
  have poly: "polygons triangle_mesh \<noteq> []" by (simp add: triangle_mesh_def)
  have tris: "\<not> isl (vert_coords (vertices triangle_mesh)
      (concat (map rev (loop_triangles triangle_mesh))))"
    by (simp add: triangle_mesh_def)
  have new: "get_internal_resource (MeshCollisionShapeKeyData 0 k) ?e = None" for k :: string
    by (simp add: get_internal_resource_def empty_escn_file_def)
  have len: "length (internal_resources ?e) = 0" by (simp add: empty_escn_file_def)
  note same = mesh_shape_get_or_create[OF escn_wf_empty rb1 rb2 m1 m2 g(1) g(1) g(2) g(2) mesh mesh]
  note diff = mesh_shape_get_or_create[OF escn_wf_empty rb1 rb3 m1 m3 g(1) g(1) g(2) g(2) mesh mesh]
  from same poly tris new len have
    "(\<exists>i1 escn1 i2 escn2.
      generate_convex_shape sym_collaborators ?e () obj_convex = Inr (Some i1, escn1) \<and>
      generate_convex_shape sym_collaborators escn1 () obj_convex2 = Inr (Some i2, escn2) \<and>
      i2 = i1 \<and> escn2 = escn1 \<and> length (internal_resources escn2) = 1)"
    and
    "(\<exists>i1 escn1 i2 escn2.
      generate_concave_shape sym_collaborators ?e () obj_convex = Inr (Some i1, escn1) \<and>
      generate_concave_shape sym_collaborators escn1 () obj_convex2 = Inr (Some i2, escn2) \<and>
      i2 = i1 \<and> escn2 = escn1 \<and> length (internal_resources escn2) = 1)"
    by auto
  moreover from diff poly tris have
    "(\<exists>i1 escn1 i2 escn2.
      generate_convex_shape sym_collaborators ?e () obj_convex = Inr (Some i1, escn1) \<and>
      generate_convex_shape sym_collaborators escn1 () obj_margin = Inr (Some i2, escn2) \<and>
      i2 \<noteq> i1)"
    and
    "(\<exists>i1 escn1 i2 escn2.
      generate_concave_shape sym_collaborators ?e () obj_convex = Inr (Some i1, escn1) \<and>
      generate_concave_shape sym_collaborators escn1 () obj_margin = Inr (Some i2, escn2) \<and>
      i2 \<noteq> i1)"
    by auto
  ultimately show ?thesis
    using escn_wf_empty mesh poly tris by blast
qed

text \<open>
  Two requests that differ in the margin only, in the empty file: the ids are 1 and 2.
\<close>

lemma mesh_shape_margin_example:
  "map_sum id fst (generate_convex_shape sym_collaborators
      (empty_escn_file :: (sym_matrix, string) escn_file) () obj_convex) = Inr (Some 1) \<and>
   map_sum id fst (generate_convex_shape sym_collaborators
      (snd (projr (generate_convex_shape sym_collaborators
         (empty_escn_file :: (sym_matrix, string) escn_file) () obj_convex))) () obj_margin)
     = Inr (Some 2)"
  by (simp add: scene_defs converter_defs structure_defs Let_def)

subsection \<open>Collision shape node\<close>

text \<open>
  Claim C3. The transform of every exported collision-shape node: without a root override
  it is the identity matrix multiplied by the axis correction; with a root override it is
  the (safely) inverted world matrix of the override multiplied by the world matrix of the
  object, multiplied by the axis correction.
\<close>

theorem collision_shape_transform:
  assumes "export_collision_shape c escn es node pg po = Inr (col_node, escn')"
  shows "(po = None \<longrightarrow> node_get col_node ''transform'' =
             Some (MatrixVal (matmul c (Identity4 c) (AXIS_CORRECT c)))) \<and>
         (\<forall>p. po = Some p \<longrightarrow> node_get col_node ''transform'' =
             Some (MatrixVal (matmul c (matmul c (inverted_safe c (matrix_world p))
                                                 (matrix_world node)) (AXIS_CORRECT c))))"
  using assms
  by (auto simp add: export_collision_shape_def Let_def node_get_node_set
      split: option.splits sum.splits prod.splits if_splits)

theorem collision_shape_transform_witness:
  "\<exists>col_node escn'.
     export_collision_shape sym_collaborators (empty_escn_file :: (sym_matrix, string) escn_file)
       () obj_b None (Some obj_a) = Inr (col_node, escn') \<and>
     node_get col_node ''transform'' =
       Some (MatrixVal (Mul (Mul (Inverted (Named ''AWorld'')) (Named ''BWorld'')) AxisCorrect))"
proof -
  have "\<exists>col_node escn'.
     export_collision_shape sym_collaborators (empty_escn_file :: (sym_matrix, string) escn_file)
       () obj_b None (Some obj_a) = Inr (col_node, escn')"
    by (simp add: scene_defs converter_defs structure_defs Let_def)
  then obtain col_node escn' where ex:
    "export_collision_shape sym_collaborators (empty_escn_file :: (sym_matrix, string) escn_file)
       () obj_b None (Some obj_a) = Inr (col_node, escn')"
    by blast
  from collision_shape_transform[OF ex] have
    "node_get col_node ''transform'' =
       Some (MatrixVal (Mul (Mul (Inverted (Named ''AWorld'')) (Named ''BWorld'')) AxisCorrect))"
    by (simp add: sym_collaborators_def obj_a_def obj_b_def)
  with ex show ?thesis by blast
qed

lemma primitive_shape_step:
  assumes "primitive_shape f node rbd col_name bounds = (sid, cs, f1)"
  shows "(collision_shape rbd \<in> {''BOX'', ''SPHERE'', ''CAPSULE''} \<and>
          (\<exists>item i. add_internal_resource item (RigidBodyKey (ident rbd)) f = (i, f1) \<and>
                     sid = Some i \<and> cs = Some item)) \<or>
         (collision_shape rbd \<notin> {''BOX'', ''SPHERE'', ''CAPSULE''} \<and> sid = None \<and> cs = None \<and>
          f1 = logging_warning (''Unable to export physics shape for '' @ name node) f)"
  using assms unfolding primitive_shape_def Let_def
  by (auto split: if_splits prod.splits)

lemma escn_wf_primitive_shape:
  "escn_wf f \<Longrightarrow> primitive_shape f node rbd col_name bounds = (sid, cs, f1) \<Longrightarrow> escn_wf f1"
  using primitive_shape_step[of f node rbd col_name bounds sid cs f1]
  by (auto intro: escn_wf_add escn_wf_logging_warning)

lemma export_collision_shape_primitive:
  assumes rb: "rigid_body node = Some rbd"
    and prim: "collision_shape rbd \<in> {''BOX'', ''SPHERE'', ''CAPSULE''}"
    and ex: "export_collision_shape c f es node pg po = Inr (col_node, f')"
  shows "\<exists>i. internal_hashes f' (RigidBodyKey (ident rbd)) = Some i \<and>
             node_get col_node ''shape'' = Some (StrVal (SubResource (Some i))) \<and>
             (escn_wf f \<longrightarrow> escn_wf f') \<and>
             (\<forall>K j. internal_hashes f K = Some j \<longrightarrow> internal_hashes f' K = Some j)"
proof -
  from prim have nomesh: "\<not> (collision_shape rbd = ''CONVEX_HULL'' \<or> collision_shape rbd = ''MESH'')"
    by auto
  from ex rb nomesh obtain bounds sid cs f1 where
      ps: "primitive_shape f node rbd (name node @ ''Collision'') bounds = (sid, cs, f1)"
    and shape: "node_get col_node ''shape'' = Some (StrVal (SubResource sid))"
    and ih: "internal_hashes f' = internal_hashes f1"
    and wf: "escn_wf f1 \<longrightarrow> escn_wf f'"
    unfolding export_collision_shape_def Let_def
    by (auto simp add: node_get_node_set escn_wf_add_node escn_wf_set_stored_resource
        split: sum.splits prod.splits option.splits if_splits)
  from primitive_shape_step[OF ps] prim obtain item i where
      add: "add_internal_resource item (RigidBodyKey (ident rbd)) f = (i, f1)"
    and sid: "sid = Some i"
    by auto
  show ?thesis
    using shape ih wf sid add_internal_resource_lookup[OF add]
      add_internal_resource_keeps[OF add] escn_wf_add[OF _ add]
    by auto
qed

lemma escn_wf_export_collision_shape:
  assumes "escn_wf f" and "export_collision_shape c f es node pg po = Inr (col_node, f')"
  shows "escn_wf f'"
  using assms unfolding export_collision_shape_def Let_def
  by (auto split: option.splits sum.splits prod.splits if_splits
      intro!: escn_wf_add_node escn_wf_set_stored_resource
      intro: escn_wf_generate_convex_shape escn_wf_generate_concave_shape escn_wf_primitive_shape)

lemma get_extents_nonempty: "bound_box node \<noteq> [] \<Longrightarrow> \<exists>bounds. get_extents node = Inr bounds"
  by (auto simp add: get_extents_def split: list.splits prod.splits)

text \<open>
  The decimal digits of distinct numbers differ, so distinct ids give distinct references.
\<close>

lemma digit_inj:
  assumes "a < 10" and "b < 10" and "''0123456789'' ! a = ''0123456789'' ! b"
  shows "a = b"
proof -
  have "distinct ''0123456789''" by simp
  with assms show ?thesis by (simp add: nth_eq_iff_index_eq)
qed

lemma str_nat_nonempty: "str_nat n \<noteq> []"
  by (subst str_nat.simps) simp

lemma str_nat_inj: "str_nat a = str_nat b \<Longrightarrow> a = b"
proof (induction a arbitrary: b rule: str_nat.induct)
  case (1 n)
  have sn: "str_nat n = (if n < 10 then [''0123456789'' ! n]
      else str_nat (n div 10) @ [''0123456789'' ! (n mod 10)])"
    by (subst str_nat.simps) (rule refl)
  have sb: "str_nat b = (if b < 10 then [''0123456789'' ! b]
      else str_nat (b div 10) @ [''0123456789'' ! (b mod 10)])"
    by (subst str_nat.simps) (rule refl)
  show ?case
  proof (cases "n < 10")
    case True
    note n = this
    show ?thesis
    proof (cases "b < 10")
      case True
      with n "1.prems" sn sb show ?thesis by (auto intro: digit_inj)
    next
      case False
      with n "1.prems" sn sb str_nat_nonempty[of "b div 10"] show ?thesis by auto
    qed
  next
    case False
    note n = this
    show ?thesis
    proof (cases "b < 10")
      case True
      with n "1.prems" sn sb str_nat_nonempty[of "n div 10"] show ?thesis by auto
    next
      case False
      with n "1.prems" sn sb have eq: "str_nat (n div 10) = str_nat (b div 10)"
        and d: "''0123456789'' ! (n mod 10) = ''0123456789'' ! (b mod 10)"
        by auto
      from "1.IH"[OF n eq] have q: "n div 10 = b div 10" .
      have "n mod 10 = b mod 10" using d by (intro digit_inj) auto
      with q show ?thesis by (metis div_mult_mod_eq)
    qed
  qed
qed

lemma SubResource_inj: "SubResource (Some a) = SubResource (Some b) \<Longrightarrow> a = b"
  by (simp add: SubResource_def str_nat_inj)

text \<open>
  Claim C4. The primitive shapes (box, sphere, capsule) are registered under the identity
  of the rigid body. For two objects whose rigid bodies are distinct, exported one after
  the other, whatever their bounding boxes: the two keys hold different ids in the file,
  and the shape references of the two collision nodes differ, so the resource is not shared.
\<close>

theorem primitive_shapes_not_shared:
  assumes wf: "escn_wf escn"
    and rb1: "rigid_body n1 = Some r1" and rb2: "rigid_body n2 = Some r2"
    and p1: "collision_shape r1 \<in> {''BOX'', ''SPHERE'', ''CAPSULE''}"
    and p2: "collision_shape r2 \<in> {''BOX'', ''SPHERE'', ''CAPSULE''}"
    and ne: "ident r1 \<noteq> ident r2"
    and e1: "export_collision_shape c escn es n1 pg1 po1 = Inr (cn1, escn1)"
    and e2: "export_collision_shape c escn1 es n2 pg2 po2 = Inr (cn2, escn2)"
  shows "\<exists>i1 i2.
           get_internal_resource (RigidBodyKey (ident r1)) escn2 = Some i1 \<and>
           get_internal_resource (RigidBodyKey (ident r2)) escn2 = Some i2 \<and>
           i1 \<noteq> i2 \<and>
           node_get cn1 ''shape'' = Some (StrVal (SubResource (Some i1))) \<and>
           node_get cn2 ''shape'' = Some (StrVal (SubResource (Some i2))) \<and>
           node_get cn1 ''shape'' \<noteq> node_get cn2 ''shape''"
proof -
  from export_collision_shape_primitive[OF rb1 p1 e1] wf obtain i1 where
      l1: "internal_hashes escn1 (RigidBodyKey (ident r1)) = Some i1"
    and s1: "node_get cn1 ''shape'' = Some (StrVal (SubResource (Some i1)))"
    and wf1: "escn_wf escn1"
    by auto
  from export_collision_shape_primitive[OF rb2 p2 e2] wf1 obtain i2 where
      l2: "internal_hashes escn2 (RigidBodyKey (ident r2)) = Some i2"
    and s2: "node_get cn2 ''shape'' = Some (StrVal (SubResource (Some i2)))"
    and wf2: "escn_wf escn2"
    and keep: "\<forall>K j. internal_hashes escn1 K = Some j \<longrightarrow> internal_hashes escn2 K = Some j"
    by auto
  from keep l1 have l1': "internal_hashes escn2 (RigidBodyKey (ident r1)) = Some i1" by blast
  from ne have "RigidBodyKey (ident r1) \<noteq> (RigidBodyKey (ident r2) :: 'b resource_key)" by simp
  from escn_wf_inj[OF wf2 l1' l2 this] have neq: "i1 \<noteq> i2" .
  then have "SubResource (Some i1) \<noteq> SubResource (Some i2)"
    using SubResource_inj by blast
  with l1' l2 neq s1 s2 show ?thesis
    by (simp add: get_internal_resource_def)
qed

theorem primitive_shapes_not_shared_witness:
  "rigid_body obj_box = Some (rbd_box\<lparr>ident := 4\<rparr>) \<and>
   rigid_body obj_box2 = Some (rbd_box\<lparr>ident := 5\<rparr>) \<and>
   bound_box obj_box = bound_box obj_box2 \<and>
   (\<exists>cn1 escn1 cn2 escn2.
      export_collision_shape sym_collaborators
        (empty_escn_file :: (sym_matrix, string) escn_file) () obj_box None None
        = Inr (cn1, escn1) \<and>
      export_collision_shape sym_collaborators escn1 () obj_box2 None None = Inr (cn2, escn2) \<and>
      get_internal_resource (RigidBodyKey 4) escn2 \<noteq> get_internal_resource (RigidBodyKey 5) escn2 \<and>
      node_get cn1 ''shape'' \<noteq> node_get cn2 ''shape'')"
proof -
  let ?e = "empty_escn_file :: (sym_matrix, string) escn_file"
  have rb1: "rigid_body obj_box = Some (rbd_box\<lparr>ident := 4\<rparr>)"
    by (simp add: obj_box_def obj_with_def)
  have rb2: "rigid_body obj_box2 = Some (rbd_box\<lparr>ident := 5\<rparr>)"
    by (simp add: obj_box2_def obj_with_def)
  have bb: "bound_box obj_box = bound_box obj_box2"
    by (simp add: obj_box_def obj_box2_def obj_with_def)
  have p1: "collision_shape (rbd_box\<lparr>ident := 4\<rparr>) \<in> {''BOX'', ''SPHERE'', ''CAPSULE''}"
    by (simp add: rbd_box_def)
  have p2: "collision_shape (rbd_box\<lparr>ident := 5\<rparr>) \<in> {''BOX'', ''SPHERE'', ''CAPSULE''}"
    by (simp add: rbd_box_def)
  have ne: "ident (rbd_box\<lparr>ident := 4\<rparr>) \<noteq> ident (rbd_box\<lparr>ident := 5\<rparr>)" by simp
  have "\<exists>cn1 escn1 cn2 escn2.
      export_collision_shape sym_collaborators ?e () obj_box None None = Inr (cn1, escn1) \<and>
      export_collision_shape sym_collaborators escn1 () obj_box2 None None = Inr (cn2, escn2)"
    by (simp add: scene_defs converter_defs structure_defs Let_def)
  then obtain cn1 escn1 cn2 escn2 where
      e1: "export_collision_shape sym_collaborators ?e () obj_box None None = Inr (cn1, escn1)"
    and e2: "export_collision_shape sym_collaborators escn1 () obj_box2 None None
               = Inr (cn2, escn2)"
    by blast
  from primitive_shapes_not_shared[OF escn_wf_empty rb1 rb2 p1 p2 ne e1 e2]
  have "get_internal_resource (RigidBodyKey 4) escn2 \<noteq> get_internal_resource (RigidBodyKey 5) escn2 \<and>
      node_get cn1 ''shape'' \<noteq> node_get cn2 ''shape''"
    by auto
  with rb1 rb2 bb e1 e2 show ?thesis by blast
qed

text \<open>
  Claim C7. For an object with a capsule shape and extents \<open>bounds\<close>, exported for the
  first time: the registered shape is a \<^verbatim>\<open>CapsuleShape\<close> whose radius is
  \<open>max x y / 2\<close> and whose height is \<open>z\<close> minus twice that radius. Nothing clamps the
  height: it is negative when \<open>z < max x y\<close>. Extents (2, 2, 4) give radius 1 and
  height 2.
\<close>

theorem capsule_dimensions:
  assumes rb: "rigid_body node = Some rbd"
    and cap: "collision_shape rbd = ''CAPSULE''"
    and ext: "get_extents node = Inr bounds"
    and fresh: "get_internal_resource (RigidBodyKey (ident rbd)) escn = None"
  shows "\<exists>col_node escn' rid capsule.
           export_collision_shape c escn es node pg po = Inr (col_node, escn') \<and>
           get_internal_resource (RigidBodyKey (ident rbd)) escn' = Some rid \<and>
           node_get col_node ''shape'' = Some (StrVal (SubResource (Some rid))) \<and>
           rid = length (internal_resources escn) + 1 \<and>
           length (internal_resources escn') = rid \<and>
           internal_resources escn' ! (rid - 1) = capsule \<and>
           rsc_type capsule = ''CapsuleShape'' \<and>
           rsc_get capsule ''radius'' = Some (FloatVal (max (vx bounds) (vy bounds) / 2)) \<and>
           rsc_get capsule ''height'' =
             Some (FloatVal (vz bounds - 2 * (max (vx bounds) (vy bounds) / 2))) \<and>
           (vz bounds < max (vx bounds) (vy bounds) \<longrightarrow>
              vz bounds - 2 * (max (vx bounds) (vy bounds) / 2) < 0) \<and>
           (bounds = Vector 2 2 4 \<longrightarrow>
              rsc_get capsule ''radius'' = Some (FloatVal 1) \<and>
              rsc_get capsule ''height'' = Some (FloatVal 2))"
proof -
  from fresh have ih: "internal_hashes escn (RigidBodyKey (ident rbd)) = None"
    by (simp add: get_internal_resource_def)
  show ?thesis
    using rb cap ext fresh
    by (simp add: export_collision_shape_def primitive_shape_def Let_def
        add_internal_resource_new[OF ih] node_get_node_set rsc_get_rsc_set rsc_type_rsc_set
        get_internal_resource_def add_node_def set_stored_resource_def InternalResource_def)
qed

theorem capsule_dimensions_witness:
  "rigid_body obj_b = Some (rbd_box\<lparr>ident := 1, collision_shape := ''CAPSULE''\<rparr>) \<and>
   get_extents obj_b = Inr (Vector 2 2 4) \<and>
   (\<exists>col_node escn' capsule.
      export_collision_shape sym_collaborators
        (empty_escn_file :: (sym_matrix, string) escn_file) () obj_b None None
        = Inr (col_node, escn') \<and>
      internal_resources escn' = [capsule] \<and>
      rsc_get capsule ''radius'' = Some (FloatVal 1) \<and>
      rsc_get capsule ''height'' = Some (FloatVal 2))"
proof -
  let ?rbd = "rbd_box\<lparr>ident := 1, collision_shape := ''CAPSULE''\<rparr>"
  let ?e = "empty_escn_file :: (sym_matrix, string) escn_file"
  have rb: "rigid_body obj_b = Some ?rbd" by (simp add: obj_b_def)
  have cap: "collision_shape ?rbd = ''CAPSULE''" by simp
  have ext: "get_extents obj_b = Inr (Vector 2 2 4)"
    by (simp add: get_extents_def obj_b_def box224_def extents_step_def vec_sub_def)
  have fresh: "get_internal_resource (RigidBodyKey (ident ?rbd)) ?e = None"
    by (simp add: get_internal_resource_def empty_escn_file_def)
  from capsule_dimensions[OF rb cap ext fresh, of sym_collaborators "()" None None]
  obtain col_node escn' rid capsule where
      ex: "export_collision_shape sym_collaborators ?e () obj_b None None = Inr (col_node, escn')"
    and rid: "rid = length (internal_resources ?e) + 1"
    and len: "length (internal_resources escn') = rid"
    and cap: "internal_resources escn' ! (rid - 1) = capsule"
    and r: "rsc_get capsule ''radius'' = Some (FloatVal 1)"
    and h: "rsc_get capsule ''height'' = Some (FloatVal 2)"
    by auto
  from rid have "rid = 1" by (simp add: empty_escn_file_def)
  with len cap have "internal_resources escn' = [capsule]"
    by (cases "internal_resources escn'") auto
  with rb ext ex r h show ?thesis by blast
qed

text \<open>
  A flat bounding box, of extents (2, 2, 0): the height of the capsule is \<open>- 2\<close>.
\<close>

lemma capsule_flat_box_example:
  "get_extents obj_flat = Inr (Vector 2 2 0) \<and>
   map_sum id (\<lambda>r. internal_resources (snd r))
     (export_collision_shape sym_collaborators
        (empty_escn_file :: (sym_matrix, string) escn_file) () obj_flat None None)
   = Inr [\<lparr>rsc_type = ''CapsuleShape'', rsc_name = ''FlatCollision'',
           rsc_props = [(''radius'', FloatVal 1), (''height'', FloatVal (- 2))]\<rparr>]"
  by (simp add: scene_defs converter_defs structure_defs Let_def)

text \<open>
  Claim C8. For an object whose shape kind is none of \<^verbatim>\<open>BOX\<close>, \<^verbatim>\<open>SPHERE\<close>,
  \<^verbatim>\<open>CAPSULE\<close>, \<^verbatim>\<open>CONVEX_HULL\<close>, \<^verbatim>\<open>MESH\<close> (and whose bounding box has corners, as every
  bounding box of Blender has), the export succeeds: one warning is logged, the resource
  table is unchanged, the node carries the shape reference \<^verbatim>\<open>SubResource(None)\<close>, and the
  node is added to the file.
\<close>

theorem unsupported_shape_nonfatal:
  assumes rb: "rigid_body node = Some rbd"
    and unsupported:
      "collision_shape rbd \<notin> {''BOX'', ''SPHERE'', ''CAPSULE'', ''CONVEX_HULL'', ''MESH''}"
    and bb: "bound_box node \<noteq> []"
  shows "\<exists>col_node escn'.
           export_collision_shape c escn es node pg po = Inr (col_node, escn') \<and>
           log escn' = log escn @ [''Unable to export physics shape for '' @ name node] \<and>
           internal_resources escn' = internal_resources escn \<and>
           internal_hashes escn' = internal_hashes escn \<and>
           node_get col_node ''shape'' = Some (StrVal ''SubResource(None)'') \<and>
           nodes escn' = nodes escn @ [col_node]"
proof -
  from get_extents_nonempty[OF bb] obtain bounds where ext: "get_extents node = Inr bounds" ..
  show ?thesis
    using rb unsupported ext
    by (simp add: export_collision_shape_def primitive_shape_def Let_def node_get_node_set
        add_node_def logging_warning_def SubResource_def)
qed

theorem unsupported_shape_nonfatal_witness:
  "rigid_body (obj_with (rbd_box\<lparr>collision_shape := ''CYLINDER''\<rparr>))
     = Some (rbd_box\<lparr>collision_shape := ''CYLINDER''\<rparr>) \<and>
   bound_box (obj_with (rbd_box\<lparr>collision_shape := ''CYLINDER''\<rparr>)) \<noteq> [] \<and>
   (\<exists>col_node escn'.
      export_collision_shape sym_collaborators
        (empty_escn_file :: (sym_matrix, string) escn_file) ()
        (obj_with (rbd_box\<lparr>collision_shape := ''CYLINDER''\<rparr>)) None None
        = Inr (col_node, escn') \<and>
      log escn' = [''Unable to export physics shape for Obj''] \<and>
      internal_resources escn' = [] \<and>
      node_get col_node ''shape'' = Some (StrVal ''SubResource(None)'') \<and>
      nodes escn' = [col_node])"
proof -
  let ?rbd = "rbd_box\<lparr>collision_shape := ''CYLINDER''\<rparr>"
  let ?e = "empty_escn_file :: (sym_matrix, string) escn_file"
  have rb: "rigid_body (obj_with ?rbd) = Some ?rbd" by (simp add: obj_with_def)
  have un: "collision_shape ?rbd \<notin> {''BOX'', ''SPHERE'', ''CAPSULE'', ''CONVEX_HULL'', ''MESH''}"
    by simp
  have bb: "bound_box (obj_with ?rbd) \<noteq> []" by (simp add: obj_with_def box224_def)
  from unsupported_shape_nonfatal[OF rb un bb, of sym_collaborators ?e "()" None None]
  show ?thesis
    using rb bb by (auto simp add: empty_escn_file_def obj_with_def)
qed

text \<open>
  Claim C9, as amended. For a request that reaches the mesh converter (nothing is stored
  under its key): when the converter returns no mesh, for a convex hull or a concave
  shape, or returns a mesh without polygons, for a concave shape, the export succeeds, no
  resource is registered, nothing is logged, the node has no shape property, and the node
  is added to the file. A convex hull request whose mesh is present is not covered: it
  registers a shape even when the mesh has no geometry.
\<close>

theorem missing_mesh_nonfatal:
  assumes rb: "rigid_body node = Some rbd"
    and key: "MeshCollisionShapeKey c shape_type node es = Inr key"
    and miss: "get_internal_resource key escn = None"
    and nomesh:
      "(collision_shape rbd = ''CONVEX_HULL'' \<and> shape_type = ''ConvexPolygonShape'' \<and>
        to_mesh c node es = None) \<or>
       (collision_shape rbd = ''MESH'' \<and> shape_type = ''ConcavePolygonShape'' \<and>
        (case to_mesh c node es of None \<Rightarrow> True | Some mesh \<Rightarrow> polygons mesh = []))"
  shows "\<exists>col_node.
           export_collision_shape c escn es node pg po = Inr (col_node, add_node col_node escn) \<and>
           node_get col_node ''shape'' = None \<and>
           internal_resources (add_node col_node escn) = internal_resources escn \<and>
           internal_hashes (add_node col_node escn) = internal_hashes escn \<and>
           log (add_node col_node escn) = log escn \<and>
           nodes (add_node col_node escn) = nodes escn @ [col_node]"
  using rb key miss nomesh
  by (auto simp add: export_collision_shape_def generate_convex_shape_def
      generate_concave_shape_def Let_def node_get_node_set node_get_NodeTemplate add_node_def
      split: option.splits)

theorem missing_mesh_nonfatal_witness:
  "rigid_body obj_convex = Some (rbd_box\<lparr>ident := 2, collision_shape := ''CONVEX_HULL''\<rparr>) \<and>
   to_mesh no_mesh_collaborators obj_convex () = None \<and>
   (\<exists>col_node escn'.
      export_collision_shape no_mesh_collaborators
        (empty_escn_file :: (sym_matrix, string) escn_file) () obj_convex None None
        = Inr (col_node, escn') \<and>
      node_get col_node ''shape'' = None \<and>
      internal_resources escn' = [] \<and>
      nodes escn' = [col_node])"
proof -
  let ?rbd = "rbd_box\<lparr>ident := 2, collision_shape := ''CONVEX_HULL''\<rparr>"
  let ?e = "empty_escn_file :: (sym_matrix, string) escn_file"
  let ?K = "MeshCollisionShapeKeyData 0 ''ConvexPolygonShape'' :: string resource_key"
  have rb: "rigid_body obj_convex = Some ?rbd" by (simp add: obj_convex_def obj_with_def)
  have key: "MeshCollisionShapeKey no_mesh_collaborators ''ConvexPolygonShape'' obj_convex ()
      = Inr ?K"
    by (simp add: MeshCollisionShapeKey_def obj_convex_def obj_with_def rbd_box_def
        no_mesh_collaborators_def sym_collaborators_def)
  have miss: "get_internal_resource ?K ?e = None"
    by (simp add: get_internal_resource_def empty_escn_file_def)
  have nm: "to_mesh no_mesh_collaborators obj_convex () = None"
    by (simp add: no_mesh_collaborators_def)
  have nomesh:
    "(collision_shape ?rbd = ''CONVEX_HULL'' \<and> ''ConvexPolygonShape'' = ''ConvexPolygonShape'' \<and>
        to_mesh no_mesh_collaborators obj_convex () = None) \<or>
       (collision_shape ?rbd = ''MESH'' \<and> ''ConvexPolygonShape'' = ''ConcavePolygonShape'' \<and>
        (case to_mesh no_mesh_collaborators obj_convex () of
           None \<Rightarrow> True | Some mesh \<Rightarrow> polygons mesh = []))"
    using nm by simp
  from missing_mesh_nonfatal[OF rb key miss nomesh, of None None]
  show ?thesis
    using rb nm by (auto simp add: empty_escn_file_def add_node_def)
qed

text \<open>
  The claim as first stated fails for a convex hull whose mesh is present and empty: a
  \<^verbatim>\<open>ConvexPolygonShape\<close> with no points is registered and the node refers to it.
\<close>

theorem empty_convex_mesh_counterexample:
  "to_mesh empty_mesh_collaborators obj_convex () = Some empty_mesh \<and>
   vertices empty_mesh = [] \<and> polygons empty_mesh = [] \<and>
   \<not> isl empty_convex_export \<and>
   node_get (fst (projr empty_convex_export)) ''shape'' = Some (StrVal ''SubResource(1)'') \<and>
   internal_resources (snd (projr empty_convex_export)) =
     [\<lparr>rsc_type = ''ConvexPolygonShape'', rsc_name = ''Mesh'',
       rsc_props = [(''points'', ArrayVal ''PoolVector3Array('' [])]\<rparr>]"
  by (simp add: empty_convex_export_def scene_defs converter_defs structure_defs Let_def)

subsection \<open>Body node\<close>

lemma export_physics_controller_result:
  assumes "rigid_body node = Some rbd"
  shows "\<exists>phys_obj escn'.
     export_physics_controller escn es node pg = Inr (phys_obj, escn') \<and>
     nodes escn' = nodes escn @ [phys_obj] \<and>
     internal_hashes escn' = internal_hashes escn \<and>
     node_parent phys_obj = pg \<and>
     get_type phys_obj =
       (if rbd_type rbd = ''ACTIVE''
        then (if kinematic rbd then ''KinematicBody'' else ''RigidBody'')
        else ''StaticBody'') \<and>
     node_get phys_obj ''collision_layer'' =
       Some (IntVal (col_groups_loop 0 0 (collision_collections rbd))) \<and>
     node_get phys_obj ''collision_mask'' =
       Some (IntVal (col_groups_loop 0 0 (collision_collections rbd)))"
  using assms
  by (simp add: export_physics_controller_def Let_def node_get_node_set get_type_node_set
      get_type_NodeTemplate add_node_def force_add_internal_resource_def
      node_parent_node_set node_parent_NodeTemplate split: prod.split)

lemma export_physics_controller_body:
  assumes "export_physics_controller escn es node pg = Inr (phys_obj, escn')"
  shows "get_type phys_obj \<in> PHYSICS_TYPES"
proof -
  from assms obtain rbd where rb: "rigid_body node = Some rbd"
    by (auto simp add: export_physics_controller_def split: option.splits)
  from export_physics_controller_result[OF rb, of escn es pg] assms show ?thesis
    by (auto simp add: PHYSICS_TYPES_def)
qed

lemma escn_wf_export_physics_controller:
  assumes "escn_wf f" and "export_physics_controller f es node pg = Inr (phys_obj, f')"
  shows "escn_wf f'"
proof -
  from assms(2) obtain rbd where rb: "rigid_body node = Some rbd"
    by (auto simp add: export_physics_controller_def split: option.splits)
  from assms(2) rb have
    "internal_hashes f' = internal_hashes f \<and>
     length (internal_resources f) \<le> length (internal_resources f')"
    by (auto simp add: export_physics_controller_def Let_def add_node_def
        force_add_internal_resource_def split: if_splits)
  with assms(1) show ?thesis
    unfolding escn_wf_def by (metis le_trans)
qed

lemma col_groups_loop_horner:
  "col_groups_loop acc off bs = acc + push_bit off (horner_sum of_bool 2 bs)"
proof (induction bs arbitrary: acc off)
  case Nil
  show ?case by simp
next
  case (Cons b bs)
  show ?case
    by (simp add: Cons.IH push_bit_add push_bit_eq_mult algebra_simps)
qed

lemma bit_col_groups:
  "bit (col_groups_loop 0 0 bs) i \<longleftrightarrow> i < length bs \<and> bs ! i"
  by (simp add: col_groups_loop_horner bit_horner_sum_bit_iff)

text \<open>
  Claim C5. For an object with a rigid body the body node is made and added to the file,
  and its type is \<^verbatim>\<open>KinematicBody\<close> for an active kinematic body, \<^verbatim>\<open>RigidBody\<close> for an
  active body that is not kinematic, and \<^verbatim>\<open>StaticBody\<close> for a passive body (and for every
  type other than \<^verbatim>\<open>ACTIVE\<close>).
\<close>

theorem body_variant_selection:
  assumes "rigid_body node = Some rbd"
  shows "\<exists>phys_obj escn'.
     export_physics_controller escn es node pg = Inr (phys_obj, escn') \<and>
     nodes escn' = nodes escn @ [phys_obj] \<and>
     (rbd_type rbd = ''ACTIVE'' \<and> kinematic rbd \<longrightarrow> get_type phys_obj = ''KinematicBody'') \<and>
     (rbd_type rbd = ''ACTIVE'' \<and> \<not> kinematic rbd \<longrightarrow> get_type phys_obj = ''RigidBody'') \<and>
     (rbd_type rbd = ''PASSIVE'' \<longrightarrow> get_type phys_obj = ''StaticBody'') \<and>
     (rbd_type rbd \<noteq> ''ACTIVE'' \<longrightarrow> get_type phys_obj = ''StaticBody'')"
  using export_physics_controller_result[OF assms, of escn es pg] by auto

theorem body_variant_selection_witness:
  "rigid_body obj_a = Some rbd_box \<and> rbd_type rbd_box = ''ACTIVE'' \<and> \<not> kinematic rbd_box \<and>
   (\<exists>phys_obj escn'.
      export_physics_controller (empty_escn_file :: (sym_matrix, string) escn_file) () obj_a None
        = Inr (phys_obj, escn') \<and>
      get_type phys_obj = ''RigidBody'')"
proof -
  have rb: "rigid_body obj_a = Some rbd_box" by (simp add: obj_a_def)
  from body_variant_selection[OF rb, of "empty_escn_file :: (sym_matrix, string) escn_file" "()" None]
  show ?thesis
    using rb by (auto simp add: rbd_box_def)
qed

text \<open>
  Claim C6. The collision layer and the collision mask of the body node are the same
  integer, whose bit \<open>i\<close> is set exactly when the \<open>i\<close>-th collision collection is enabled,
  bit 0 being the least significant; the flags [true, false, true] give 5.
\<close>

theorem collision_layer_mask_bits:
  assumes "rigid_body node = Some rbd"
  shows "\<exists>phys_obj escn' col_groups.
     export_physics_controller escn es node pg = Inr (phys_obj, escn') \<and>
     node_get phys_obj ''collision_layer'' = Some (IntVal col_groups) \<and>
     node_get phys_obj ''collision_mask'' = Some (IntVal col_groups) \<and>
     (\<forall>i. bit col_groups i \<longleftrightarrow>
            i < length (collision_collections rbd) \<and> collision_collections rbd ! i) \<and>
     (collision_collections rbd = [True, False, True] \<longrightarrow> col_groups = 5)"
proof -
  have "collision_collections rbd = [True, False, True] \<longrightarrow>
        col_groups_loop 0 0 (collision_collections rbd) = 5"
    by simp
  with export_physics_controller_result[OF assms, of escn es pg] show ?thesis
    by (auto simp add: bit_col_groups)
qed

theorem collision_layer_mask_bits_witness:
  "rigid_body obj_a = Some rbd_box \<and> collision_collections rbd_box = [True, False, True] \<and>
   (\<exists>phys_obj escn'.
      export_physics_controller (empty_escn_file :: (sym_matrix, string) escn_file) () obj_a None
        = Inr (phys_obj, escn') \<and>
      node_get phys_obj ''collision_layer'' = Some (IntVal 5) \<and>
      node_get phys_obj ''collision_mask'' = Some (IntVal 5))"
proof -
  have rb: "rigid_body obj_a = Some rbd_box" by (simp add: obj_a_def)
  have cc: "collision_collections rbd_box = [True, False, True]" by (simp add: rbd_box_def)
  from collision_layer_mask_bits[OF rb, of "empty_escn_file :: (sym_matrix, string) escn_file" "()" None]
  show ?thesis
    using rb cc by auto
qed

subsection \<open>Orchestration\<close>

lemma trace_physics_node_find:
  "trace_physics_node ptr =
     (case List.find (\<lambda>n. get_type n \<in> PHYSICS_TYPES) (gd_chain ptr) of
        Some n \<Rightarrow> Inr n
      | None \<Rightarrow> Inl AttributeError)"
  by (induction ptr rule: trace_physics_node.induct) simp_all

text \<open>
  Claim C10. The walk over the parents of the output nodes tests the type only. It returns
  the first node of the chain (the nearest) whose type is a physics type when the chain has
  one; otherwise it reaches the absent parent of the last node and fails with
  \<^verbatim>\<open>AttributeError\<close>. Every chain of parents is finite here, so the walk ends in both
  cases.
\<close>

theorem trace_physics_node_nearest:
  "trace_physics_node ptr =
     (case List.find (\<lambda>n. get_type n \<in> PHYSICS_TYPES) (gd_chain ptr) of
        Some n \<Rightarrow> Inr n
      | None \<Rightarrow> Inl AttributeError) \<and>
   ((\<exists>n. trace_physics_node ptr = Inr n) \<longleftrightarrow>
      (\<exists>n \<in> set (gd_chain ptr). get_type n \<in> PHYSICS_TYPES)) \<and>
   (trace_physics_node ptr = Inl AttributeError \<longleftrightarrow>
      \<not> (\<exists>n \<in> set (gd_chain ptr). get_type n \<in> PHYSICS_TYPES))"
proof -
  have "(\<exists>n \<in> set (gd_chain ptr). get_type n \<in> PHYSICS_TYPES) \<longleftrightarrow>
        List.find (\<lambda>n. get_type n \<in> PHYSICS_TYPES) (gd_chain ptr) \<noteq> None"
    by (auto simp add: find_None_iff)
  then show ?thesis
    by (auto simp add: trace_physics_node_find split: option.splits)
qed

text \<open>
  A walk through a container node that is not a body, and a walk on a chain without a body.
\<close>

lemma trace_physics_node_examples:
  "trace_physics_node
     (Some (Node ''A'' ''Spatial'' (Some (Node ''APhysics'' ''RigidBody'' None [])) []))
     = Inr (Node ''APhysics'' ''RigidBody'' None []) \<and>
   trace_physics_node (Some (Node ''A'' ''Spatial'' None [])) = Inl AttributeError"
  by (simp add: get_type_def PHYSICS_TYPES_def)

lemma trace_physics_node_body:
  "get_type n \<in> PHYSICS_TYPES \<Longrightarrow> trace_physics_node (Some n) = Inr n"
  by (cases n) simp

text \<open>
  For a physics root the walk stops at once, at the body node just made. Below a physics
  root the walk starts at the node given by the caller, and the export fails when no node
  of that chain is a body.
\<close>

lemma export_physics_properties_root:
  assumes "get_physics_root node = None"
    and "export_physics_controller escn es node pg = Inr (phys_obj, escn1)"
  shows "export_physics_properties c escn es node pg =
           export_collision_shape c escn1 es node (Some phys_obj) None"
  using assms trace_physics_node_body[OF export_physics_controller_body[OF assms(2)]]
  by (simp add: export_physics_properties_def)

lemma export_physics_properties_child:
  assumes "get_physics_root node = Some body_root"
  shows "export_physics_properties c escn es node pg =
           (case trace_physics_node pg of
              Inl e \<Rightarrow> Inl e
            | Inr physics_gd_node \<Rightarrow>
                export_collision_shape c escn es node (Some physics_gd_node) (Some body_root))"
  using assms by (simp add: export_physics_properties_def)

lemma export_physics_properties_no_body:
  assumes "get_physics_root node = Some body_root"
    and "\<not> (\<exists>n \<in> set (gd_chain pg). get_type n \<in> PHYSICS_TYPES)"
  shows "export_physics_properties c escn es node pg = Inl AttributeError"
proof -
  from assms(2) have "List.find (\<lambda>n. get_type n \<in> PHYSICS_TYPES) (gd_chain pg) = None"
    by (simp add: find_None_iff)
  then have "trace_physics_node pg = Inl AttributeError"
    by (simp add: trace_physics_node_find)
  with assms(1) show ?thesis
    by (simp add: export_physics_properties_child)
qed

lemma escn_wf_export_physics_properties:
  assumes "escn_wf f" and "export_physics_properties c f es node pg = Inr (col_node, f')"
  shows "escn_wf f'"
  using assms unfolding export_physics_properties_def Let_def
  by (auto split: option.splits sum.splits prod.splits if_splits
      intro: escn_wf_export_collision_shape escn_wf_export_physics_controller)

text \<open>
  The export of the physics root \<open>obj_a\<close> into the empty file: a \<^verbatim>\<open>RigidBody\<close> node and a
  collision node below it, whose transform is the identity times the axis correction.
\<close>

lemma export_physics_properties_example:
  "map_sum id
     (\<lambda>r. (node_type (fst r), map_option node_type (node_parent (fst r)),
            node_get (fst r) ''transform'', map node_name (nodes (snd r))))
     (export_physics_properties sym_collaborators
        (empty_escn_file :: (sym_matrix, string) escn_file) () obj_a None)
   = Inr (''CollisionShape'', Some ''RigidBody'', Some (MatrixVal (Mul Ident AxisCorrect)),
          [''APhysics'', ''ACollision''])"
  by (simp add: scene_defs converter_defs structure_defs Let_def)

end
